theory Spec2Isabelle
  imports Main
begin

section \<open>Data model\<close>

text \<open>
  The Classifier controller of projectsveltos: the reconciler of
  \<^verbatim>\<open>controllers/classifier_controller.go\<close>, the deployer of
  \<^verbatim>\<open>controllers/classifier_deployer.go\<close> and the report collector of
  \<^verbatim>\<open>controllers/classifier_report_collection.go\<close>.

  A Go slice of bytes is a \<open>string\<close> (a list of 8-bit characters); a nil slice that the
  code distinguishes from a set one is \<open>None\<close>. A Go pointer that may be nil is an
  \<open>option\<close>. An \<open>error\<close> return is \<open>error option\<close> (\<open>None\<close> is nil).
\<close>

type_synonym bytes = string

datatype error =
    NotFound string
  | ApiError string
  | Errorf string

text \<open>\<^verbatim>\<open>apierrors.IsNotFound\<close> and \<^verbatim>\<open>err.Error()\<close>.\<close>

fun IsNotFound :: "error \<Rightarrow> bool" where
  "IsNotFound (NotFound m) = True"
| "IsNotFound (ApiError m) = False"
| "IsNotFound (Errorf m) = False"

fun Error :: "error \<Rightarrow> string" where
  "Error (NotFound m) = m"
| "Error (ApiError m) = m"
| "Error (Errorf m) = m"

text \<open>\<^verbatim>\<open>corev1.ObjectReference\<close>: a comparable struct, used as a map key.\<close>

record ObjectReference =
  or_Kind :: string
  or_Namespace :: string
  or_Name :: string
  or_UID :: string
  or_APIVersion :: string
  or_ResourceVersion :: string
  or_FieldPath :: string

text \<open>The composite literal \<^verbatim>\<open>corev1.ObjectReference{Namespace: ns, Name: n}\<close>.\<close>

definition ObjectReferenceOf :: "string \<Rightarrow> string \<Rightarrow> ObjectReference" where
  "ObjectReferenceOf ns n =
     \<lparr>or_Kind = [], or_Namespace = ns, or_Name = n, or_UID = [], or_APIVersion = [],
      or_ResourceVersion = [], or_FieldPath = []\<rparr>"

text \<open>
  \<^verbatim>\<open>ClassifierFeatureStatus\<close> is a string type; \<open>ClassifierStatusUnset\<close> is its
  zero value, the empty string.
\<close>

datatype ClassifierFeatureStatus =
    ClassifierStatusUnset
  | ClassifierStatusProvisioning
  | ClassifierStatusProvisioned
  | ClassifierStatusFailed
  | ClassifierStatusRemoving
  | ClassifierStatusRemoved

record ClusterInfo =
  ci_Cluster :: ObjectReference
  ci_Hash :: "bytes option"
  ci_Status :: ClassifierFeatureStatus
  ci_FailureMessage :: "string option"

record UnManagedLabel =
  ul_Key :: string
  ul_FailureMessage :: "string option"

record MachingClusterStatus =
  mcs_ClusterRef :: ObjectReference
  mcs_ManagedLabels :: "string list"
  mcs_UnManagedLabels :: "UnManagedLabel list"

record ClassifierLabel =
  cl_Key :: string
  cl_Value :: string

text \<open>
  The Classifier object: its name, the annotations and finalizers of its metadata, the
  labels of its spec (the rest of the spec only enters the hash, see \<open>feature\<close>), and
  its status.
\<close>

record Classifier =
  c_Name :: string
  c_Annotations :: "(string \<times> string) list"
  c_Finalizers :: "string list"
  c_ClassifierLabels :: "ClassifierLabel list"
  c_ClusterInfo :: "ClusterInfo list"
  c_MachingClusterStatuses :: "MachingClusterStatus list"

text \<open>\<^verbatim>\<open>classifierScope.SetClusterInfo\<close> and \<^verbatim>\<open>SetMachingClusterStatuses\<close>.\<close>

definition SetClusterInfo :: "ClusterInfo list \<Rightarrow> Classifier \<Rightarrow> Classifier" where
  "SetClusterInfo clusterInfo classifier = classifier\<lparr>c_ClusterInfo := clusterInfo\<rparr>"

definition SetMachingClusterStatuses :: "MachingClusterStatus list \<Rightarrow> Classifier \<Rightarrow> Classifier" where
  "SetMachingClusterStatuses statuses classifier =
     classifier\<lparr>c_MachingClusterStatuses := statuses\<rparr>"

text \<open>A CAPI cluster as the reconciler reads it: \<open>None\<close> is a zero deletion timestamp.\<close>

record Cluster =
  cluster_Namespace :: string
  cluster_Name :: string
  cluster_DeletionTimestamp :: "nat option"

record ClassifierReportSpec =
  crs_ClusterNamespace :: string
  crs_ClusterName :: string
  crs_ClassifierName :: string
  crs_Match :: bool

text \<open>A nil \<open>Labels\<close> map is \<open>None\<close>; a map is an association list read by \<open>map_of\<close>.\<close>

record ClassifierReport =
  cr_Namespace :: string
  cr_Name :: string
  cr_Labels :: "(string \<times> string) list option"
  cr_Spec :: ClassifierReportSpec

section \<open>updateClusterInfo\<close>

definition getClusterID :: "ObjectReference \<Rightarrow> string" where
  "getClusterID cluster = or_Namespace cluster @ ''/'' @ or_Name cluster"

text \<open>
  The loop of \<^verbatim>\<open>getListOfClusters\<close> over \<^verbatim>\<open>clusterList.Items\<close>, with the
  slice \<open>matching\<close> it appends to.
\<close>

fun getListOfClusters_loop :: "Cluster list \<Rightarrow> ObjectReference list \<Rightarrow> ObjectReference list" where
  "getListOfClusters_loop [] matching = matching"
| "getListOfClusters_loop (cluster # items) matching =
     (if cluster_DeletionTimestamp cluster \<noteq> None
      then getListOfClusters_loop items matching
      else getListOfClusters_loop items
             (matching @ [ObjectReferenceOf (cluster_Namespace cluster) (cluster_Name cluster)]))"

text \<open>The argument is what \<^verbatim>\<open>r.List(ctx, clusterList)\<close> answered.\<close>

definition getListOfClusters :: "error + Cluster list \<Rightarrow> error + ObjectReference list" where
  "getListOfClusters listed =
     (case listed of
        Inl err \<Rightarrow> Inl err
      | Inr items \<Rightarrow> Inr (getListOfClusters_loop items []))"

text \<open>
  \<open>clusterMap\<close> of \<^verbatim>\<open>updateClusterInfo\<close> only ever stores \<open>true\<close> and is only asked
  whether a key is present: it is the list of its keys.
\<close>

fun clusterMap_loop :: "ClusterInfo list \<Rightarrow> string list \<Rightarrow> string list" where
  "clusterMap_loop [] clusterMap = clusterMap"
| "clusterMap_loop (c # rest) clusterMap =
     clusterMap_loop rest (List.insert (getClusterID (ci_Cluster c)) clusterMap)"

text \<open>The literal \<^verbatim>\<open>libsveltosv1alpha1.ClusterInfo{Cluster: *c}\<close>.\<close>

definition ClusterInfoOf :: "ObjectReference \<Rightarrow> ClusterInfo" where
  "ClusterInfoOf c =
     \<lparr>ci_Cluster = c, ci_Hash = None, ci_Status = ClassifierStatusUnset,
      ci_FailureMessage = None\<rparr>"

fun newClusterInfo_loop :: "string list \<Rightarrow> ObjectReference list \<Rightarrow> ClusterInfo list \<Rightarrow> ClusterInfo list" where
  "newClusterInfo_loop clusterMap [] newClusterInfo = newClusterInfo"
| "newClusterInfo_loop clusterMap (c # rest) newClusterInfo =
     (if getClusterID c \<notin> set clusterMap
      then newClusterInfo_loop clusterMap rest (newClusterInfo @ [ClusterInfoOf c])
      else newClusterInfo_loop clusterMap rest newClusterInfo)"

text \<open>
  \<^verbatim>\<open>updateClusterInfo\<close> returns its error and leaves the Classifier of the scope
  as the second component.
\<close>

definition updateClusterInfo :: "error + Cluster list \<Rightarrow> Classifier \<Rightarrow> error option \<times> Classifier" where
  "updateClusterInfo listed classifier =
     (case getListOfClusters listed of
        Inl err \<Rightarrow> (Some err, classifier)
      | Inr matchingCluster \<Rightarrow>
          (let clusterMap = clusterMap_loop (c_ClusterInfo classifier) [];
               newClusterInfo = newClusterInfo_loop clusterMap matchingCluster [];
               finalClusterInfo = c_ClusterInfo classifier @ newClusterInfo
           in (None, SetClusterInfo finalClusterInfo classifier)))"

text \<open>The live clusters of a listing: those with a zero deletion timestamp.\<close>

definition liveClusters :: "Cluster list \<Rightarrow> ObjectReference list" where
  "liveClusters items =
     map (\<lambda>cluster. ObjectReferenceOf (cluster_Namespace cluster) (cluster_Name cluster))
       (filter (\<lambda>cluster. cluster_DeletionTimestamp cluster = None) items)"

definition clusterIDs :: "ClusterInfo list \<Rightarrow> string list" where
  "clusterIDs infos = map (\<lambda>c. getClusterID (ci_Cluster c)) infos"

section \<open>Report collection\<close>

text \<open>
  The label names are constants of the API package and of the collector; no property
  below depends on their spelling.
\<close>

definition ClassifierLabelName :: string where
  "ClassifierLabelName = ''projectsveltos.io/classifier-name''"

definition classifierReportClusterLabel :: string where
  "classifierReportClusterLabel = ''projectsveltos.io/cluster''"

definition getClassifierReportName :: "string \<Rightarrow> string \<Rightarrow> string" where
  "getClassifierReportName classifierName clusterName = classifierName @ ''--'' @ clusterName"

definition getClusterInfo :: "string \<Rightarrow> string \<Rightarrow> string" where
  "getClusterInfo clusterNamespace clusterName = clusterNamespace @ ''--'' @ clusterName"

text \<open>The Go assignment \<^verbatim>\<open>m[k] = v\<close> on a map held as an association list.\<close>

definition map_assign :: "string \<Rightarrow> string \<Rightarrow> (string \<times> string) list \<Rightarrow> (string \<times> string) list" where
  "map_assign k v m = (k, v) # filter (\<lambda>kv. fst kv \<noteq> k) m"

text \<open>
  The management cluster as the collector's client sees it: the ClassifierReports it
  stores, by namespace and name, and the failures the API server may answer a read or a
  write with.
\<close>

record Client =
  client_reports :: "string \<times> string \<Rightarrow> ClassifierReport option"
  client_getFault :: "string \<times> string \<Rightarrow> error option"
  client_createFault :: "ClassifierReport \<Rightarrow> error option"
  client_updateFault :: "ClassifierReport \<Rightarrow> error option"

definition Get :: "Client \<Rightarrow> string \<times> string \<Rightarrow> error + ClassifierReport" where
  "Get c key =
     (case client_getFault c key of
        Some err \<Rightarrow> Inl err
      | None \<Rightarrow>
          (case client_reports c key of
             None \<Rightarrow> Inl (NotFound ''not found'')
           | Some obj \<Rightarrow> Inr obj))"

definition Create :: "Client \<Rightarrow> ClassifierReport \<Rightarrow> error option \<times> Client" where
  "Create c obj =
     (case client_createFault c obj of
        Some err \<Rightarrow> (Some err, c)
      | None \<Rightarrow>
          (case client_reports c (cr_Namespace obj, cr_Name obj) of
             Some old \<Rightarrow> (Some (ApiError ''already exists''), c)
           | None \<Rightarrow>
               (None, c\<lparr>client_reports := (client_reports c)((cr_Namespace obj, cr_Name obj) \<mapsto> obj)\<rparr>)))"

definition Update :: "Client \<Rightarrow> ClassifierReport \<Rightarrow> error option \<times> Client" where
  "Update c obj =
     (case client_updateFault c obj of
        Some err \<Rightarrow> (Some err, c)
      | None \<Rightarrow>
          (case client_reports c (cr_Namespace obj, cr_Name obj) of
             None \<Rightarrow> (Some (NotFound ''not found''), c)
           | Some old \<Rightarrow>
               (None, c\<lparr>client_reports := (client_reports c)((cr_Namespace obj, cr_Name obj) \<mapsto> obj)\<rparr>)))"

text \<open>
  \<^verbatim>\<open>updateClassifierReport\<close>: the error it returns and the management cluster
  after it.
\<close>

definition updateClassifierReport :: "Client \<Rightarrow> Cluster \<Rightarrow> ClassifierReport \<Rightarrow> error option \<times> Client" where
  "updateClassifierReport c cluster classiferReport =
     (case cr_Labels classiferReport of
        None \<Rightarrow> (Some (Errorf ''classifierReport is malformed. Labels is empty''), c)
      | Some labels \<Rightarrow>
          (case map_of labels ClassifierLabelName of
             None \<Rightarrow> (Some (Errorf ''classifierReport is malformed. Label missing''), c)
           | Some classifierName \<Rightarrow>
               (let classifierReportName =
                      getClassifierReportName classifierName (cluster_Name cluster);
                    clusterSpec = (cr_Spec classiferReport)
                      \<lparr>crs_ClusterNamespace := cluster_Namespace cluster,
                       crs_ClusterName := cluster_Name cluster\<rparr>;
                    clusterLabel = getClusterInfo (cluster_Namespace cluster) (cluster_Name cluster)
                in (case Get c (cluster_Namespace cluster, classifierReportName) of
                      Inl err \<Rightarrow>
                        if IsNotFound err
                        then Create c
                               \<lparr>cr_Namespace = cluster_Namespace cluster,
                                cr_Name = classifierReportName,
                                cr_Labels = Some (map_assign classifierReportClusterLabel clusterLabel labels),
                                cr_Spec = clusterSpec\<rparr>
                        else (Some err, c)
                    | Inr currentClassifierReport \<Rightarrow>
                        Update c
                          (currentClassifierReport
                             \<lparr>cr_Spec := clusterSpec,
                              cr_Labels := Some (map_assign classifierReportClusterLabel clusterLabel
                                (case cr_Labels currentClassifierReport of
                                   None \<Rightarrow> []
                                 | Some l \<Rightarrow> l))\<rparr>)))))"

section \<open>The consistency index: updateMaps\<close>

record PolicyRef =
  pr_Kind :: string
  pr_Namespace :: string
  pr_Name :: string

text \<open>
  \<^verbatim>\<open>libsveltosset.Set\<close>, a set of PolicyRef, is the list of its elements, kept
  without repetition. \<open>Difference\<close> returns the elements of the first set that the second
  one lacks, as a slice.
\<close>

type_synonym PolicySet = "PolicyRef list"

definition Set_Insert :: "PolicyRef \<Rightarrow> PolicySet \<Rightarrow> PolicySet" where
  "Set_Insert entry s = List.insert entry s"

definition Set_Erase :: "PolicyRef \<Rightarrow> PolicySet \<Rightarrow> PolicySet" where
  "Set_Erase entry s = removeAll entry s"

definition Set_Difference :: "PolicySet \<Rightarrow> PolicySet \<Rightarrow> PolicyRef list" where
  "Set_Difference s b = filter (\<lambda>item. item \<notin> set b) s"

datatype ReportMode = CollectFromManagementCluster | AgentSendReportsNoGateway

text \<open>
  The fields of the reconciler the functions below read or write. A Go map to
  \<^verbatim>\<open>*Set\<close> is a function to \<open>PolicySet option\<close>: \<open>None\<close> where the key is absent.
\<close>

record ClassifierReconciler =
  ClassifierReportMode :: ReportMode
  ControlPlaneEndpoint :: string
  ClusterMap :: "PolicyRef \<Rightarrow> PolicySet option"
  ClassifierMap :: "PolicyRef \<Rightarrow> PolicySet option"
  ClassifierSet :: PolicySet
  AllClassifierSet :: PolicySet

text \<open>The reconciler as the manager creates it: maps and sets allocated, and empty.\<close>

definition newReconciler :: "ReportMode \<Rightarrow> string \<Rightarrow> ClassifierReconciler" where
  "newReconciler mode endpoint =
     \<lparr>ClassifierReportMode = mode, ControlPlaneEndpoint = endpoint,
      ClusterMap = (\<lambda>k. None), ClassifierMap = (\<lambda>k. None),
      ClassifierSet = [], AllClassifierSet = []\<rparr>"

definition ClassifierKind :: string where
  "ClassifierKind = ''Classifier''"

text \<open>
  The literals \<^verbatim>\<open>PolicyRef{Namespace: cluster.Namespace, Name: cluster.Name, Kind: "Cluster"}\<close>
  and \<^verbatim>\<open>PolicyRef{Kind: ClassifierKind, Name: classifierScope.Name()}\<close>.
\<close>

definition clusterPolicyRef :: "ObjectReference \<Rightarrow> PolicyRef" where
  "clusterPolicyRef cluster =
     \<lparr>pr_Kind = ''Cluster'', pr_Namespace = or_Namespace cluster, pr_Name = or_Name cluster\<rparr>"

definition classifierPolicyRef :: "string \<Rightarrow> PolicyRef" where
  "classifierPolicyRef name = \<lparr>pr_Kind = ClassifierKind, pr_Namespace = [], pr_Name = name\<rparr>"

text \<open>
  \<^verbatim>\<open>getClusterMapForEntry\<close> returns the set of the entry, and stores an empty one
  first when the map has none: the set, and the map after the call.
\<close>

definition getClusterMapForEntry ::
  "(PolicyRef \<Rightarrow> PolicySet option) \<Rightarrow> PolicyRef \<Rightarrow> PolicySet \<times> (PolicyRef \<Rightarrow> PolicySet option)" where
  "getClusterMapForEntry clusterMap entry =
     (case clusterMap entry of
        None \<Rightarrow> ([], clusterMap(entry \<mapsto> []))
      | Some s \<Rightarrow> (s, clusterMap))"

fun currentClusters_loop :: "ClusterInfo list \<Rightarrow> PolicySet \<Rightarrow> PolicySet" where
  "currentClusters_loop [] currentClusters = currentClusters"
| "currentClusters_loop (info # rest) currentClusters =
     currentClusters_loop rest (Set_Insert (clusterPolicyRef (ci_Cluster info)) currentClusters)"

text \<open>The two loops of \<^verbatim>\<open>updateMaps\<close> over the cluster map; a set is updated in place.\<close>

fun addConsumer_loop ::
  "PolicyRef \<Rightarrow> ClusterInfo list \<Rightarrow> (PolicyRef \<Rightarrow> PolicySet option) \<Rightarrow> (PolicyRef \<Rightarrow> PolicySet option)" where
  "addConsumer_loop classifierInfo [] clusterMap = clusterMap"
| "addConsumer_loop classifierInfo (info # rest) clusterMap =
     (let clusterInfo = clusterPolicyRef (ci_Cluster info);
          (s, clusterMap') = getClusterMapForEntry clusterMap clusterInfo
      in addConsumer_loop classifierInfo rest
           (clusterMap'(clusterInfo \<mapsto> Set_Insert classifierInfo s)))"

fun removeConsumer_loop ::
  "PolicyRef \<Rightarrow> PolicyRef list \<Rightarrow> (PolicyRef \<Rightarrow> PolicySet option) \<Rightarrow> (PolicyRef \<Rightarrow> PolicySet option)" where
  "removeConsumer_loop classifierInfo [] clusterMap = clusterMap"
| "removeConsumer_loop classifierInfo (clusterName # rest) clusterMap =
     (let (s, clusterMap') = getClusterMapForEntry clusterMap clusterName
      in removeConsumer_loop classifierInfo rest
           (clusterMap'(clusterName \<mapsto> Set_Erase classifierInfo s)))"

definition updateMaps :: "Classifier \<Rightarrow> ClassifierReconciler \<Rightarrow> ClassifierReconciler" where
  "updateMaps classifier r =
     (let currentClusters = currentClusters_loop (c_ClusterInfo classifier) [];
          classifierInfo = classifierPolicyRef (c_Name classifier);
          toBeRemoved = (case ClassifierMap r classifierInfo of
                           Some v \<Rightarrow> Set_Difference v currentClusters
                         | None \<Rightarrow> []);
          clusterMap1 = addConsumer_loop classifierInfo (c_ClusterInfo classifier) (ClusterMap r);
          clusterMap2 = removeConsumer_loop classifierInfo toBeRemoved clusterMap1
      in r\<lparr>ClusterMap := clusterMap2,
            ClassifierMap := (ClassifierMap r)(classifierInfo \<mapsto> currentClusters)\<rparr>)"

text \<open>The elements of a set of the index; a key without a set has none.\<close>

definition members :: "PolicySet option \<Rightarrow> PolicyRef set" where
  "members s = (case s of None \<Rightarrow> {} | Some xs \<Rightarrow> set xs)"

text \<open>
  The mirror invariant: a Classifier is among the consumers of a cluster exactly when the
  cluster is among the clusters of the Classifier.
\<close>

definition mirror :: "ClassifierReconciler \<Rightarrow> bool" where
  "mirror r = (\<forall>P C. P \<in> members (ClusterMap r C) \<longleftrightarrow> C \<in> members (ClassifierMap r P))"

text \<open>The reconciler after the passes of a history of Classifiers, oldest first.\<close>

definition afterPasses :: "Classifier list \<Rightarrow> ClassifierReconciler \<Rightarrow> ClassifierReconciler" where
  "afterPasses history r = foldl (\<lambda>r classifier. updateMaps classifier r) r history"

definition statusClusters :: "Classifier \<Rightarrow> PolicyRef set" where
  "statusClusters classifier = set (map (\<lambda>info. clusterPolicyRef (ci_Cluster info)) (c_ClusterInfo classifier))"

text \<open>
  What the index records for each Classifier after a history of executions of
  \<^verbatim>\<open>updateMaps\<close>: the clusters of the status the Classifier had at its latest
  execution, and none for a Classifier without an execution.
\<close>

definition recordedClusters :: "Classifier list \<Rightarrow> PolicyRef \<Rightarrow> PolicyRef set" where
  "recordedClusters history =
     foldl (\<lambda>recorded classifier.
              recorded(classifierPolicyRef (c_Name classifier) := statusClusters classifier))
       (\<lambda>P. {}) history"

section \<open>The deployer: collaborators\<close>

datatype ClusterType = ClusterTypeCapi | ClusterTypeSveltos

text \<open>\<^verbatim>\<open>deployer.Result\<close> and its status.\<close>

datatype ResultStatus = Deployed | InProgress | Failed | Removed | Unavailable

record Result =
  res_ResultStatus :: ResultStatus
  res_Err :: "error option"

text \<open>
  The request handlers are functions the reconciler hands to the queue and never calls
  itself: a handler is its name.
\<close>

datatype RequestHandler =
    deployClassifierInCluster
  | deployClassifierWithKubeconfigInCluster
  | undeployClassifierFromCluster

record Options =
  HandlerOptions :: "(string \<times> string) list option"

text \<open>
  What identifies a request on the queue: the arguments shared by
  \<^verbatim>\<open>IsInProgress\<close>, \<^verbatim>\<open>GetResult\<close> and \<^verbatim>\<open>Deploy\<close>.
\<close>

record DeployerKey =
  dk_clusterNamespace :: string
  dk_clusterName :: string
  dk_applicant :: string
  dk_featureID :: string
  dk_clusterType :: ClusterType
  dk_cleanup :: bool

text \<open>A call of \<^verbatim>\<open>Deploy\<close>; the duration is a constant of the package.\<close>

record Request =
  rq_key :: DeployerKey
  rq_handler :: RequestHandler
  rq_options :: Options

record feature =
  f_id :: string
  f_currentHash :: "Classifier \<Rightarrow> bytes"
  f_deploy :: RequestHandler
  f_undeploy :: RequestHandler

text \<open>
  What the reconciler's collaborators answer during one pass: the API server (through the
  helpers \<^verbatim>\<open>getClusterType\<close>, \<^verbatim>\<open>isClusterPaused\<close>, \<^verbatim>\<open>getCluster\<close>,
  \<^verbatim>\<open>clusterproxy.IsClusterReadyToBeConfigured\<close>, \<^verbatim>\<open>getKubeconfigFromAccessRequest\<close>,
  \<^verbatim>\<open>removeClassifierReports\<close>, \<^verbatim>\<open>removeAccessRequest\<close> and the two listings), the
  hash function, the asynchronous queue \<^verbatim>\<open>r.Deployer\<close>, and whether the label key
  manager can be obtained. The answers are taken as they come: the model does not follow
  the state of the API server or of the queue, which other workers change too, and a
  request handed to \<open>Deploy\<close> is recorded in the list of requests a function returns.
  A digest is a set slice, never nil.
\<close>

record Environment =
  getClusterType :: "ObjectReference \<Rightarrow> ClusterType"
  isClusterPaused :: "string \<Rightarrow> string \<Rightarrow> ClusterType \<Rightarrow> error + bool"
  IsClusterReadyToBeConfigured :: "ObjectReference \<Rightarrow> error + bool"
  getKubeconfigFromAccessRequest :: "string \<Rightarrow> string \<Rightarrow> ClusterType \<Rightarrow> error + bytes option"
  getCluster :: "string \<Rightarrow> string \<Rightarrow> ClusterType \<Rightarrow> error option"
  listClusters :: "error + Cluster list"
  listClassifierReports :: "string \<Rightarrow> error + ClassifierReport list"
  removeClassifierReports :: "Classifier \<Rightarrow> error option"
  removeAccessRequest :: "error option"
  sha256 :: "bytes \<Rightarrow> bytes"
  IsInProgress :: "DeployerKey \<Rightarrow> bool"
  GetResult :: "DeployerKey \<Rightarrow> Result"
  Deploy :: "Request \<Rightarrow> error option"
  GetKeyManagerInstance :: "error option"

definition deployerKey :: "Environment \<Rightarrow> ObjectReference \<Rightarrow> Classifier \<Rightarrow> feature \<Rightarrow> bool \<Rightarrow> DeployerKey" where
  "deployerKey env cluster classifier f cleanup =
     \<lparr>dk_clusterNamespace = or_Namespace cluster, dk_clusterName = or_Name cluster,
      dk_applicant = c_Name classifier, dk_featureID = f_id f,
      dk_clusterType = getClusterType env cluster, dk_cleanup = cleanup\<rparr>"

section \<open>The deployer: the state machine of one cluster\<close>

fun convertResultStatus :: "Result \<Rightarrow> ClassifierFeatureStatus option" where
  "convertResultStatus result =
     (case res_ResultStatus result of
        Deployed \<Rightarrow> Some ClassifierStatusProvisioned
      | Failed \<Rightarrow> Some ClassifierStatusFailed
      | InProgress \<Rightarrow> Some ClassifierStatusProvisioning
      | Removed \<Rightarrow> Some ClassifierStatusRemoved
      | Unavailable \<Rightarrow> None)"

text \<open>The hash and the status of the first entry for the cluster, \<open>(nil, nil)\<close> without one.\<close>

fun getClassifierInClusterHashAndStatus_loop ::
  "ClusterInfo list \<Rightarrow> ObjectReference \<Rightarrow> bytes option \<times> ClassifierFeatureStatus option" where
  "getClassifierInClusterHashAndStatus_loop [] cluster = (None, None)"
| "getClassifierInClusterHashAndStatus_loop (cInfo # rest) cluster =
     (if or_Namespace (ci_Cluster cInfo) = or_Namespace cluster \<and>
         or_Name (ci_Cluster cInfo) = or_Name cluster \<and>
         or_APIVersion (ci_Cluster cInfo) = or_APIVersion cluster \<and>
         or_Kind (ci_Cluster cInfo) = or_Kind cluster
      then (ci_Hash cInfo, Some (ci_Status cInfo))
      else getClassifierInClusterHashAndStatus_loop rest cluster)"

definition getClassifierInClusterHashAndStatus ::
  "Classifier \<Rightarrow> ObjectReference \<Rightarrow> bytes option \<times> ClassifierFeatureStatus option" where
  "getClassifierInClusterHashAndStatus classifier cluster =
     getClassifierInClusterHashAndStatus_loop (c_ClusterInfo classifier) cluster"

definition PausedAnnotation :: string where
  "PausedAnnotation = ''cluster.x-k8s.io/paused''"

text \<open>\<^verbatim>\<open>annotations.HasPaused\<close>: the annotation is present, whatever its value.\<close>

definition HasPaused :: "Classifier \<Rightarrow> bool" where
  "HasPaused classifier = (map_of (c_Annotations classifier) PausedAnnotation \<noteq> None)"

definition isPaused :: "Environment \<Rightarrow> ObjectReference \<Rightarrow> Classifier \<Rightarrow> error + bool" where
  "isPaused env cluster classifier =
     (case isClusterPaused env (or_Namespace cluster) (or_Name cluster) (getClusterType env cluster) of
        Inl err \<Rightarrow> if IsNotFound err then Inr False else Inl err
      | Inr clusterPaused \<Rightarrow>
          if clusterPaused then Inr True else Inr (HasPaused classifier))"

definition canProceed :: "Environment \<Rightarrow> Classifier \<Rightarrow> ObjectReference \<Rightarrow> error + bool" where
  "canProceed env classifier cluster =
     (case isPaused env cluster classifier of
        Inl err \<Rightarrow> Inl err
      | Inr paused \<Rightarrow>
          if paused then Inr False
          else (case IsClusterReadyToBeConfigured env cluster of
                  Inl err \<Rightarrow> Inl err
                | Inr ready \<Rightarrow> if \<not> ready then Inr False else Inr True))"

definition getCurrentHash ::
  "ClassifierReconciler \<Rightarrow> Environment \<Rightarrow> Classifier \<Rightarrow> string \<Rightarrow> ObjectReference \<Rightarrow> feature
   \<Rightarrow> error + bytes" where
  "getCurrentHash r env classifier cpEndpoint cluster f =
     (let currentHash = f_currentHash f classifier
      in if ClassifierReportMode r = AgentSendReportsNoGateway
         then (case getKubeconfigFromAccessRequest env (or_Namespace cluster) (or_Name cluster)
                      (getClusterType env cluster) of
                 Inl err \<Rightarrow> if \<not> IsNotFound err then Inl err else Inr currentHash
               | Inr None \<Rightarrow> Inr currentHash
               | Inr (Some kubeconfig) \<Rightarrow> Inr (sha256 env (currentHash @ kubeconfig @ cpEndpoint)))
         else Inr currentHash)"

definition controlplaneendpoint :: string where
  "controlplaneendpoint = ''controlplaneendpoint-key''"

text \<open>
  \<^verbatim>\<open>processClassifier\<close> returns a ClusterInfo (or nil) and an error (or nil); the third
  component lists the requests it handed to \<^verbatim>\<open>r.Deployer.Deploy\<close>. The queue is
  asked for a result only when the hashes are equal; otherwise \<open>result\<close> keeps its zero
  value, which is never read since \<open>status\<close> stays nil.
\<close>

definition processClassifier ::
  "ClassifierReconciler \<Rightarrow> Environment \<Rightarrow> Classifier \<Rightarrow> string \<Rightarrow> ObjectReference \<Rightarrow> feature
   \<Rightarrow> ClusterInfo option \<times> error option \<times> Request list" where
  "processClassifier r env classifier cpEndpoint cluster f =
     (case getCurrentHash r env classifier cpEndpoint cluster f of
        Inl err \<Rightarrow> (None, Some err, [])
      | Inr currentHash \<Rightarrow>
     (case canProceed env classifier cluster of
        Inl err \<Rightarrow> (None, Some err, [])
      | Inr proceed \<Rightarrow>
     if \<not> proceed then (None, None, [])
     else if IsInProgress env (deployerKey env cluster classifier f True)
     then (None, Some (Errorf (''cleanup of '' @ f_id f
              @ '' in cluster still in progress. Wait before redeploying'')), [])
     else
       (let (hash, currentStatus) = getClassifierInClusterHashAndStatus classifier cluster;
            isConfigSame = (hash = Some currentHash);
            result = (if isConfigSame
                      then GetResult env (deployerKey env cluster classifier f False)
                      else \<lparr>res_ResultStatus = Deployed, res_Err = None\<rparr>);
            status = (if isConfigSame then convertResultStatus result else None)
        in (case status of
              Some s \<Rightarrow>
                (let errorMessage = (case res_Err result of None \<Rightarrow> [] | Some e \<Rightarrow> Error e);
                     clusterInfo = \<lparr>ci_Cluster = cluster, ci_Hash = Some currentHash,
                                    ci_Status = s, ci_FailureMessage = Some errorMessage\<rparr>
                 in if s = ClassifierStatusProvisioned then (Some clusterInfo, None, [])
                    else if s = ClassifierStatusProvisioning
                    then (Some clusterInfo, Some (Errorf ''classifier is still being provisioned''), [])
                    else (Some \<lparr>ci_Cluster = cluster, ci_Hash = Some currentHash,
                                ci_Status = s, ci_FailureMessage = None\<rparr>, None, []))
            | None \<Rightarrow>
                if isConfigSame \<and> currentStatus = Some ClassifierStatusProvisioned
                then (Some \<lparr>ci_Cluster = cluster, ci_Hash = Some currentHash,
                            ci_Status = ClassifierStatusProvisioned, ci_FailureMessage = None\<rparr>,
                      None, [])
                else
                  (let handler = (if ClassifierReportMode r = AgentSendReportsNoGateway
                                  then deployClassifierWithKubeconfigInCluster
                                  else deployClassifierInCluster);
                       options = (if ClassifierReportMode r = AgentSendReportsNoGateway
                                  then \<lparr>HandlerOptions =
                                          Some [(controlplaneendpoint, ControlPlaneEndpoint r)]\<rparr>
                                  else \<lparr>HandlerOptions = None\<rparr>);
                       request = \<lparr>rq_key = deployerKey env cluster classifier f False,
                                  rq_handler = handler, rq_options = options\<rparr>
                   in (case Deploy env request of
                         Some err \<Rightarrow> (None, Some err, [request])
                       | None \<Rightarrow>
                           (Some \<lparr>ci_Cluster = cluster, ci_Hash = Some currentHash,
                                  ci_Status = ClassifierStatusProvisioning,
                                  ci_FailureMessage = None\<rparr>, None, [request])))))))"

text \<open>
  \<^verbatim>\<open>removeClassifier\<close> returns its error; the second component lists the requests it
  handed to \<^verbatim>\<open>r.Deployer.Deploy\<close>.
\<close>

definition removeClassifier ::
  "Environment \<Rightarrow> Classifier \<Rightarrow> ObjectReference \<Rightarrow> feature \<Rightarrow> error option \<times> Request list" where
  "removeClassifier env classifier cluster f =
     (case isPaused env cluster classifier of
        Inl err \<Rightarrow> (Some err, [])
      | Inr paused \<Rightarrow>
     if paused then (None, [])
     else if IsInProgress env (deployerKey env cluster classifier f False)
     then (Some (Errorf (''deploy of '' @ f_id f
              @ '' in cluster still in progress. Wait before redeploying'')), [])
     else
       (let result = GetResult env (deployerKey env cluster classifier f True);
            status = convertResultStatus result
        in if status = Some ClassifierStatusProvisioning
           then (Some (Errorf ''feature is still being removed''), [])
           else if status = Some ClassifierStatusRemoved
           then (None, [])
           else
             (let request = \<lparr>rq_key = deployerKey env cluster classifier f True,
                             rq_handler = undeployClassifierFromCluster,
                             rq_options = \<lparr>HandlerOptions = None\<rparr>\<rparr>
              in (case Deploy env request of
                    Some err \<Rightarrow> (Some err, [request])
                  | None \<Rightarrow> (Some (Errorf ''cleanup request is queued''), [request])))))"

section \<open>The deployer: all clusters of a Classifier\<close>

text \<open>
  The loop of \<^verbatim>\<open>deployClassifier\<close>: one step for one entry of \<open>Status.ClusterInfo\<close>, on
  the variables \<open>errorSeen\<close>, \<open>allDeployed\<close> and \<open>clusterInfo\<close> and the requests
  dispatched so far.
\<close>

type_synonym deployLoopState = "error option \<times> bool \<times> ClusterInfo list \<times> Request list"

definition deployClassifier_step ::
  "ClassifierReconciler \<Rightarrow> Environment \<Rightarrow> Classifier \<Rightarrow> feature \<Rightarrow> ClusterInfo
   \<Rightarrow> deployLoopState \<Rightarrow> deployLoopState" where
  "deployClassifier_step r env classifier f c st =
     (case st of (errorSeen, allDeployed, clusterInfo, dispatched) \<Rightarrow>
        (case processClassifier r env classifier (ControlPlaneEndpoint r) (ci_Cluster c) f of
           (cInfo, err, requests) \<Rightarrow>
             (let errorSeen' = (case err of Some e \<Rightarrow> Some e | None \<Rightarrow> errorSeen)
              in (case cInfo of
                    None \<Rightarrow> (errorSeen', allDeployed, clusterInfo, dispatched @ requests)
                  | Some info \<Rightarrow>
                      (errorSeen',
                       (if ci_Status info \<noteq> ClassifierStatusProvisioned then False else allDeployed),
                       clusterInfo @ [info], dispatched @ requests)))))"

fun deployClassifier_loop ::
  "ClassifierReconciler \<Rightarrow> Environment \<Rightarrow> Classifier \<Rightarrow> feature \<Rightarrow> ClusterInfo list
   \<Rightarrow> deployLoopState \<Rightarrow> deployLoopState" where
  "deployClassifier_loop r env classifier f [] st = st"
| "deployClassifier_loop r env classifier f (c # rest) st =
     deployClassifier_loop r env classifier f rest (deployClassifier_step r env classifier f c st)"

text \<open>
  \<^verbatim>\<open>deployClassifier\<close>: its error, the Classifier of the scope after it, and the requests
  dispatched.
\<close>

definition deployClassifier ::
  "ClassifierReconciler \<Rightarrow> Environment \<Rightarrow> Classifier \<Rightarrow> feature
   \<Rightarrow> error option \<times> Classifier \<times> Request list" where
  "deployClassifier r env classifier f =
     (case deployClassifier_loop r env classifier f (c_ClusterInfo classifier) (None, True, [], []) of
        (errorSeen, allDeployed, clusterInfo, dispatched) \<Rightarrow>
          (let classifier' = SetClusterInfo clusterInfo classifier
           in (case errorSeen of
                 Some err \<Rightarrow> (Some err, classifier', dispatched)
               | None \<Rightarrow>
                   if \<not> allDeployed
                   then (Some (Errorf ''request to deploy Classifier is still queued in one ore more clusters''),
                         classifier', dispatched)
                   else (None, classifier', dispatched))))"

text \<open>
  The first loop of \<^verbatim>\<open>undeployClassifier\<close>: the clusters that still exist, or the error
  of the first failed read.
\<close>

fun undeployClassifier_clusters ::
  "Environment \<Rightarrow> ClusterInfo list \<Rightarrow> ObjectReference list \<Rightarrow> error + ObjectReference list" where
  "undeployClassifier_clusters env [] clusters = Inr clusters"
| "undeployClassifier_clusters env (info # rest) clusters =
     (let c = ci_Cluster info
      in (case getCluster env (or_Namespace c) (or_Name c) (getClusterType env c) of
            Some err \<Rightarrow>
              if IsNotFound err then undeployClassifier_clusters env rest clusters
              else Inl err
          | None \<Rightarrow> undeployClassifier_clusters env rest (clusters @ [c])))"

text \<open>The second loop: the entries of the clusters whose removal returned an error.\<close>

fun undeployClassifier_remove ::
  "Environment \<Rightarrow> Classifier \<Rightarrow> feature \<Rightarrow> ObjectReference list
   \<Rightarrow> ClusterInfo list \<times> Request list \<Rightarrow> ClusterInfo list \<times> Request list" where
  "undeployClassifier_remove env classifier f [] st = st"
| "undeployClassifier_remove env classifier f (c # rest) st =
     (case st of (clusterInfo, dispatched) \<Rightarrow>
        (case removeClassifier env classifier c f of
           (Some err, requests) \<Rightarrow>
             undeployClassifier_remove env classifier f rest
               (clusterInfo @ [\<lparr>ci_Cluster = c, ci_Hash = None, ci_Status = ClassifierStatusRemoving,
                                 ci_FailureMessage = Some (Error err)\<rparr>],
                dispatched @ requests)
         | (None, requests) \<Rightarrow>
             undeployClassifier_remove env classifier f rest (clusterInfo, dispatched @ requests)))"

text \<open>The verb \<^verbatim>\<open>%d\<close> of \<^verbatim>\<open>fmt.Errorf\<close> on a length.\<close>

fun decimal :: "nat \<Rightarrow> string" where
  "decimal n =
     (if n < 10 then [char_of (48 + n)]
      else decimal (n div 10) @ [char_of (48 + n mod 10)])"

definition MachingClusterStatusOf :: "ObjectReference \<Rightarrow> MachingClusterStatus" where
  "MachingClusterStatusOf c =
     \<lparr>mcs_ClusterRef = c, mcs_ManagedLabels = [], mcs_UnManagedLabels = []\<rparr>"

definition undeployClassifier ::
  "Environment \<Rightarrow> Classifier \<Rightarrow> feature \<Rightarrow> error option \<times> Classifier \<times> Request list" where
  "undeployClassifier env classifier f =
     (case undeployClassifier_clusters env (c_ClusterInfo classifier) [] of
        Inl err \<Rightarrow> (Some err, classifier, [])
      | Inr clusters \<Rightarrow>
          (case undeployClassifier_remove env classifier f clusters ([], []) of
             (clusterInfo, dispatched) \<Rightarrow>
               if length clusterInfo \<noteq> 0
               then (Some (Errorf (''still in the process of removing Classifier from ''
                              @ decimal (length clusterInfo) @ '' clusters'')),
                     SetMachingClusterStatuses
                       (map (\<lambda>info. MachingClusterStatusOf (ci_Cluster info)) clusterInfo) classifier,
                     dispatched)
               else (None, SetClusterInfo clusterInfo classifier, dispatched)))"

section \<open>The label key manager\<close>

text \<open>
  The key manager is a collaborator of the reconciler: an interface over a state \<open>'k\<close>.
  The three registration calls change the state, the two queries read it.
\<close>

record 'k KeyManager =
  RemoveStaleRegistrations :: "'k \<Rightarrow> Classifier \<Rightarrow> string \<Rightarrow> string \<Rightarrow> 'k"
  RegisterClassifierForLabels :: "'k \<Rightarrow> Classifier \<Rightarrow> string \<Rightarrow> string \<Rightarrow> 'k"
  RemoveAllRegistrations :: "'k \<Rightarrow> Classifier \<Rightarrow> string \<Rightarrow> string \<Rightarrow> 'k"
  CanManageLabel :: "'k \<Rightarrow> Classifier \<Rightarrow> string \<Rightarrow> string \<Rightarrow> string \<Rightarrow> bool"
  GetManagerForKey :: "'k \<Rightarrow> string \<Rightarrow> string \<Rightarrow> string \<Rightarrow> error + string"

text \<open>
  A registration call as the reconciler makes it: the name of the Classifier, and the
  namespace and the name of the cluster. The calls of a pass are logged in order, next to
  the state of the manager.
\<close>

datatype KeyManagerCall =
    CallRemoveStaleRegistrations string string string
  | CallRegisterClassifierForLabels string string string
  | CallRemoveAllRegistrations string string string

type_synonym 'k managerState = "'k \<times> KeyManagerCall list"

definition callRemoveStaleRegistrations ::
  "'k KeyManager \<Rightarrow> Classifier \<Rightarrow> ObjectReference \<Rightarrow> 'k managerState \<Rightarrow> 'k managerState" where
  "callRemoveStaleRegistrations manager classifier c st =
     (RemoveStaleRegistrations manager (fst st) classifier (or_Namespace c) (or_Name c),
      snd st @ [CallRemoveStaleRegistrations (c_Name classifier) (or_Namespace c) (or_Name c)])"

definition callRegisterClassifierForLabels ::
  "'k KeyManager \<Rightarrow> Classifier \<Rightarrow> ObjectReference \<Rightarrow> 'k managerState \<Rightarrow> 'k managerState" where
  "callRegisterClassifierForLabels manager classifier c st =
     (RegisterClassifierForLabels manager (fst st) classifier (or_Namespace c) (or_Name c),
      snd st @ [CallRegisterClassifierForLabels (c_Name classifier) (or_Namespace c) (or_Name c)])"

definition callRemoveAllRegistrations ::
  "'k KeyManager \<Rightarrow> Classifier \<Rightarrow> ObjectReference \<Rightarrow> 'k managerState \<Rightarrow> 'k managerState" where
  "callRemoveAllRegistrations manager classifier c st =
     (RemoveAllRegistrations manager (fst st) classifier (or_Namespace c) (or_Name c),
      snd st @ [CallRemoveAllRegistrations (c_Name classifier) (or_Namespace c) (or_Name c)])"

section \<open>Ranging over a Go map\<close>

text \<open>
  A \<^verbatim>\<open>map[corev1.ObjectReference]bool\<close> that only stores \<open>true\<close> is the list of its
  keys, without repetition. A \<^verbatim>\<open>range\<close> over it visits every key once, in an order the
  language leaves open: the order is given by a list of picks, each choosing the next key
  among those not yet visited. Every order of the keys is the one of some picks.
\<close>

fun rangeBy :: "nat list \<Rightarrow> 'a list \<Rightarrow> 'a list" where
  "rangeBy picks [] = []"
| "rangeBy [] (k # ks) = k # ks"
| "rangeBy (p # picks) (k # ks) =
     (let i = p mod length (k # ks)
      in (k # ks) ! i # rangeBy picks (take i (k # ks) @ drop (Suc i) (k # ks)))"

section \<open>The reconciler: matching clusters and label registrations\<close>

fun currentMatchingClusters_loop :: "ClassifierReport list \<Rightarrow> ObjectReference list \<Rightarrow> ObjectReference list" where
  "currentMatchingClusters_loop [] currentMatchingClusters = currentMatchingClusters"
| "currentMatchingClusters_loop (report # items) currentMatchingClusters =
     (if crs_Match (cr_Spec report)
      then currentMatchingClusters_loop items
             (List.insert (ObjectReferenceOf (crs_ClusterNamespace (cr_Spec report))
                                             (crs_ClusterName (cr_Spec report)))
                currentMatchingClusters)
      else currentMatchingClusters_loop items currentMatchingClusters)"

fun oldMatchingClusters_loop :: "MachingClusterStatus list \<Rightarrow> ObjectReference list \<Rightarrow> ObjectReference list" where
  "oldMatchingClusters_loop [] oldMatchingClusters = oldMatchingClusters"
| "oldMatchingClusters_loop (ref # rest) oldMatchingClusters =
     oldMatchingClusters_loop rest (List.insert (mcs_ClusterRef ref) oldMatchingClusters)"

text \<open>
  The two loops of \<^verbatim>\<open>handleLabelRegistrations\<close>, over the keys in the order of the
  range. The slice \<open>matchingClusterRefs\<close> the first loop fills is never read.
\<close>

fun register_loop ::
  "'k KeyManager \<Rightarrow> Classifier \<Rightarrow> ObjectReference list \<Rightarrow> 'k managerState \<Rightarrow> 'k managerState" where
  "register_loop manager classifier [] st = st"
| "register_loop manager classifier (c # rest) st =
     register_loop manager classifier rest
       (callRegisterClassifierForLabels manager classifier c
          (callRemoveStaleRegistrations manager classifier c st))"

fun unregister_loop ::
  "'k KeyManager \<Rightarrow> Classifier \<Rightarrow> ObjectReference list \<Rightarrow> ObjectReference list
   \<Rightarrow> 'k managerState \<Rightarrow> 'k managerState" where
  "unregister_loop manager classifier currentMatchingClusters [] st = st"
| "unregister_loop manager classifier currentMatchingClusters (c # rest) st =
     (if c \<notin> set currentMatchingClusters
      then unregister_loop manager classifier currentMatchingClusters rest
             (callRemoveAllRegistrations manager classifier c st)
      else unregister_loop manager classifier currentMatchingClusters rest st)"

definition handleLabelRegistrations ::
  "'k KeyManager \<Rightarrow> Environment \<Rightarrow> Classifier \<Rightarrow> ObjectReference list \<Rightarrow> ObjectReference list
   \<Rightarrow> nat list \<Rightarrow> nat list \<Rightarrow> 'k managerState \<Rightarrow> error option \<times> 'k managerState" where
  "handleLabelRegistrations manager env classifier currentMatchingClusters oldMatchingClusters
     picksCurrent picksOld st =
     (case GetKeyManagerInstance env of
        Some err \<Rightarrow> (Some err, st)
      | None \<Rightarrow>
          (None,
           unregister_loop manager classifier currentMatchingClusters
             (rangeBy picksOld oldMatchingClusters)
             (register_loop manager classifier (rangeBy picksCurrent currentMatchingClusters) st)))"

text \<open>The loop of \<^verbatim>\<open>classifyLabels\<close> over the labels of the spec.\<close>

fun classifyLabels_loop ::
  "'k KeyManager \<Rightarrow> 'k \<Rightarrow> Classifier \<Rightarrow> ObjectReference \<Rightarrow> ClassifierLabel list
   \<Rightarrow> string list \<times> UnManagedLabel list \<Rightarrow> string list \<times> UnManagedLabel list" where
  "classifyLabels_loop manager k classifier cluster [] acc = acc"
| "classifyLabels_loop manager k classifier cluster (label # rest) acc =
     (case acc of (managed, unManaged) \<Rightarrow>
        if CanManageLabel manager k classifier (or_Namespace cluster) (or_Name cluster) (cl_Key label)
        then classifyLabels_loop manager k classifier cluster rest (managed @ [cl_Key label], unManaged)
        else
          (let tmpUnManaged =
                 (case GetManagerForKey manager k (or_Namespace cluster) (or_Name cluster) (cl_Key label) of
                    Inr currentManager \<Rightarrow>
                      \<lparr>ul_Key = cl_Key label,
                       ul_FailureMessage =
                         Some (''classifier '' @ currentManager @ '' currently manage this'')\<rparr>
                  | Inl err \<Rightarrow> \<lparr>ul_Key = cl_Key label, ul_FailureMessage = None\<rparr>)
           in classifyLabels_loop manager k classifier cluster rest
                (managed, unManaged @ [tmpUnManaged])))"

definition classifyLabels ::
  "'k KeyManager \<Rightarrow> Environment \<Rightarrow> 'k \<Rightarrow> Classifier \<Rightarrow> ObjectReference
   \<Rightarrow> error + string list \<times> UnManagedLabel list" where
  "classifyLabels manager env k classifier cluster =
     (case GetKeyManagerInstance env of
        Some err \<Rightarrow> Inl err
      | None \<Rightarrow>
          Inr (classifyLabels_loop manager k classifier cluster (c_ClassifierLabels classifier) ([], [])))"

text \<open>The zero value of \<^verbatim>\<open>MachingClusterStatus\<close>, as \<^verbatim>\<open>make\<close> fills a slice with.\<close>

definition MachingClusterStatus_zero :: MachingClusterStatus where
  "MachingClusterStatus_zero = MachingClusterStatusOf (ObjectReferenceOf [] [])"

text \<open>
  The loop of \<^verbatim>\<open>updateMatchingClustersAndRegistrations\<close> that fills
  \<open>matchingClusterStatus\<close>, on the variables \<open>i\<close>, \<open>unManaged\<close> and the slice. The body
  assigns \<^verbatim>\<open>matchingClusterStatus[i]\<close> and does not change \<open>i\<close>. The slice has one
  element for each key, so index \<open>i = 0\<close> is in range whenever the body runs.
\<close>

fun matchingClusterStatus_loop ::
  "'k KeyManager \<Rightarrow> Environment \<Rightarrow> 'k \<Rightarrow> Classifier \<Rightarrow> ObjectReference list
   \<Rightarrow> nat \<times> nat \<times> MachingClusterStatus list \<Rightarrow> error + nat \<times> MachingClusterStatus list" where
  "matchingClusterStatus_loop manager env k classifier [] st =
     (case st of (i, unManaged, matchingClusterStatus) \<Rightarrow> Inr (unManaged, matchingClusterStatus))"
| "matchingClusterStatus_loop manager env k classifier (c # rest) st =
     (case st of (i, unManaged, matchingClusterStatus) \<Rightarrow>
        (case classifyLabels manager env k classifier c of
           Inl err \<Rightarrow> Inl err
         | Inr (tmpManaged, tmpUnmanaged) \<Rightarrow>
             matchingClusterStatus_loop manager env k classifier rest
               (i, unManaged + length tmpUnmanaged,
                matchingClusterStatus
                  [i := \<lparr>mcs_ClusterRef = c, mcs_ManagedLabels = tmpManaged,
                         mcs_UnManagedLabels = tmpUnmanaged\<rparr>])))"

definition updateClassifierSet :: "string \<Rightarrow> bool \<Rightarrow> ClassifierReconciler \<Rightarrow> ClassifierReconciler" where
  "updateClassifierSet classifierName hasUnManaged r =
     (let classifierInfo = classifierPolicyRef classifierName;
          r' = (if hasUnManaged
                then r\<lparr>ClassifierSet := Set_Insert classifierInfo (ClassifierSet r)\<rparr>
                else r\<lparr>ClassifierSet := Set_Erase classifierInfo (ClassifierSet r)\<rparr>)
      in r'\<lparr>AllClassifierSet := Set_Insert classifierInfo (AllClassifierSet r')\<rparr>)"

text \<open>
  \<^verbatim>\<open>updateMatchingClustersAndRegistrations\<close>: its error, and the Classifier of the
  scope, the reconciler and the key manager after it. The three lists of picks give the
  orders of its three ranges over a map.
\<close>

definition updateMatchingClustersAndRegistrations ::
  "'k KeyManager \<Rightarrow> Environment \<Rightarrow> nat list \<Rightarrow> nat list \<Rightarrow> nat list
   \<Rightarrow> ClassifierReconciler \<Rightarrow> 'k managerState \<Rightarrow> Classifier
   \<Rightarrow> error option \<times> Classifier \<times> ClassifierReconciler \<times> 'k managerState" where
  "updateMatchingClustersAndRegistrations manager env picksCurrent picksOld picksStatus r st classifier =
     (case listClassifierReports env (c_Name classifier) of
        Inl err \<Rightarrow> (Some err, classifier, r, st)
      | Inr items \<Rightarrow>
          (let currentMatchingClusters = currentMatchingClusters_loop items [];
               oldMatchingClusters =
                 oldMatchingClusters_loop (c_MachingClusterStatuses classifier) []
           in (case handleLabelRegistrations manager env classifier currentMatchingClusters
                      oldMatchingClusters picksCurrent picksOld st of
                 (Some err, st') \<Rightarrow> (Some err, classifier, r, st')
               | (None, st') \<Rightarrow>
                   (case matchingClusterStatus_loop manager env (fst st') classifier
                           (rangeBy picksStatus currentMatchingClusters)
                           (0, 0, replicate (length currentMatchingClusters) MachingClusterStatus_zero) of
                      Inl err \<Rightarrow> (Some err, classifier, r, st')
                    | Inr (unManaged, matchingClusterStatus) \<Rightarrow>
                        (None,
                         SetMachingClusterStatuses matchingClusterStatus classifier,
                         updateClassifierSet (c_Name classifier) (unManaged \<noteq> 0) r,
                         st')))))"

section \<open>The reconciler: deletion\<close>

text \<open>The loop of \<^verbatim>\<open>removeAllRegistrations\<close> over \<open>Status.MachingClusterStatuses\<close>.\<close>

fun removeAllRegistrations_loop ::
  "'k KeyManager \<Rightarrow> Classifier \<Rightarrow> MachingClusterStatus list \<Rightarrow> 'k managerState \<Rightarrow> 'k managerState" where
  "removeAllRegistrations_loop manager classifier [] st = st"
| "removeAllRegistrations_loop manager classifier (status # rest) st =
     removeAllRegistrations_loop manager classifier rest
       (callRemoveAllRegistrations manager classifier (mcs_ClusterRef status) st)"

definition removeAllRegistrations ::
  "'k KeyManager \<Rightarrow> Environment \<Rightarrow> Classifier \<Rightarrow> 'k managerState \<Rightarrow> error option \<times> 'k managerState" where
  "removeAllRegistrations manager env classifier st =
     (case GetKeyManagerInstance env of
        Some err \<Rightarrow> (Some err, st)
      | None \<Rightarrow>
          (None, removeAllRegistrations_loop manager classifier
                   (c_MachingClusterStatuses classifier) st))"

definition ClassifierFinalizer :: string where
  "ClassifierFinalizer = ''classifierfinalizer.projectsveltos.io''"

text \<open>\<^verbatim>\<open>reconcile.Result\<close>, the delay in seconds.\<close>

record ReconcileResult =
  Requeue :: bool
  RequeueAfter :: nat

definition deleteRequeueAfter :: nat where
  "deleteRequeueAfter = 20"

text \<open>What a reconciliation returns and leaves behind.\<close>

record 'k Outcome =
  out_result :: ReconcileResult
  out_error :: "error option"
  out_classifier :: Classifier
  out_reconciler :: ClassifierReconciler
  out_manager :: "'k managerState"
  out_dispatched :: "Request list"

text \<open>
  \<^verbatim>\<open>reconcileDelete\<close>. The feature \<open>f\<close> is what \<^verbatim>\<open>getHandlersForFeature\<close> answers
  for the Classifier feature.
\<close>

definition reconcileDelete ::
  "'k KeyManager \<Rightarrow> Environment \<Rightarrow> feature \<Rightarrow> ClassifierReconciler \<Rightarrow> 'k managerState \<Rightarrow> Classifier
   \<Rightarrow> 'k Outcome" where
  "reconcileDelete manager env f r st classifier =
     (case removeAllRegistrations manager env classifier st of
        (Some err, st') \<Rightarrow>
          \<lparr>out_result = \<lparr>Requeue = False, RequeueAfter = 0\<rparr>, out_error = Some err,
           out_classifier = classifier, out_reconciler = r, out_manager = st',
           out_dispatched = []\<rparr>
      | (None, st') \<Rightarrow>
          (let classifierInfo = classifierPolicyRef (c_Name classifier);
               r' = r\<lparr>ClassifierSet := Set_Erase classifierInfo (ClassifierSet r),
                      AllClassifierSet := Set_Erase classifierInfo (AllClassifierSet r)\<rparr>;
               requeue = \<lparr>Requeue = True, RequeueAfter = deleteRequeueAfter\<rparr>
           in (case undeployClassifier env classifier f of
                 (Some err, classifier', dispatched) \<Rightarrow>
                   \<lparr>out_result = requeue, out_error = None, out_classifier = classifier',
                    out_reconciler = r', out_manager = st', out_dispatched = dispatched\<rparr>
               | (None, classifier', dispatched) \<Rightarrow>
                   (case removeClassifierReports env classifier' of
                      Some err \<Rightarrow>
                        \<lparr>out_result = requeue, out_error = None, out_classifier = classifier',
                         out_reconciler = r', out_manager = st', out_dispatched = dispatched\<rparr>
                    | None \<Rightarrow>
                        (case (if ClassifierReportMode r = CollectFromManagementCluster
                               then removeAccessRequest env else None) of
                           Some err \<Rightarrow>
                             \<lparr>out_result = requeue, out_error = None, out_classifier = classifier',
                              out_reconciler = r', out_manager = st', out_dispatched = dispatched\<rparr>
                         | None \<Rightarrow>
                             \<lparr>out_result = \<lparr>Requeue = False, RequeueAfter = 0\<rparr>, out_error = None,
                              out_classifier =
                                classifier'\<lparr>c_Finalizers :=
                                  removeAll ClassifierFinalizer (c_Finalizers classifier')\<rparr>,
                              out_reconciler = r', out_manager = st',
                              out_dispatched = dispatched\<rparr>)))))"

section \<open>Vocabulary of the properties\<close>

text \<open>The cluster of a status entry no longer exists: reading it answers not-found.\<close>

definition clusterGone :: "Environment \<Rightarrow> ObjectReference \<Rightarrow> bool" where
  "clusterGone env c =
     (case getCluster env (or_Namespace c) (or_Name c) (getClusterType env c) of
        Some err \<Rightarrow> IsNotFound err
      | None \<Rightarrow> False)"

definition clusterExists :: "Environment \<Rightarrow> ObjectReference \<Rightarrow> bool" where
  "clusterExists env c =
     (getCluster env (or_Namespace c) (or_Name c) (getClusterType env c) = None)"

text \<open>The cluster itself is paused, as \<^verbatim>\<open>isClusterPaused\<close> answers.\<close>

definition clusterPaused :: "Environment \<Rightarrow> ObjectReference \<Rightarrow> bool" where
  "clusterPaused env c =
     (isClusterPaused env (or_Namespace c) (or_Name c) (getClusterType env c) = Inr True)"

text \<open>The undeploy of the pair has reached Removed: no deploy in progress, result Removed.\<close>

definition removalConfirmed :: "Environment \<Rightarrow> Classifier \<Rightarrow> feature \<Rightarrow> ObjectReference \<Rightarrow> bool" where
  "removalConfirmed env classifier f c =
     (isPaused env c classifier = Inr False
      \<and> \<not> IsInProgress env (deployerKey env c classifier f False)
      \<and> convertResultStatus (GetResult env (deployerKey env c classifier f True))
           = Some ClassifierStatusRemoved)"

text \<open>The pair needs an undeploy request: nothing is in progress and no result is Removed.\<close>

definition removalPending :: "Environment \<Rightarrow> Classifier \<Rightarrow> feature \<Rightarrow> ObjectReference \<Rightarrow> bool" where
  "removalPending env classifier f c =
     (isPaused env c classifier = Inr False
      \<and> \<not> IsInProgress env (deployerKey env c classifier f False)
      \<and> convertResultStatus (GetResult env (deployerKey env c classifier f True))
           \<noteq> Some ClassifierStatusProvisioning
      \<and> convertResultStatus (GetResult env (deployerKey env c classifier f True))
           \<noteq> Some ClassifierStatusRemoved)"

definition undeployRequest :: "Environment \<Rightarrow> Classifier \<Rightarrow> feature \<Rightarrow> ObjectReference \<Rightarrow> Request" where
  "undeployRequest env classifier f c =
     \<lparr>rq_key = deployerKey env c classifier f True,
      rq_handler = undeployClassifierFromCluster,
      rq_options = \<lparr>HandlerOptions = None\<rparr>\<rparr>"

text \<open>The two calls \<^verbatim>\<open>handleLabelRegistrations\<close> makes for a matching cluster, in order.\<close>

definition registerCalls :: "Classifier \<Rightarrow> ObjectReference \<Rightarrow> KeyManagerCall list" where
  "registerCalls classifier c =
     [CallRemoveStaleRegistrations (c_Name classifier) (or_Namespace c) (or_Name c),
      CallRegisterClassifierForLabels (c_Name classifier) (or_Namespace c) (or_Name c)]"

text \<open>The clusters of the reports that say match, and those of the previous statuses.\<close>

definition matchingClusters :: "ClassifierReport list \<Rightarrow> ObjectReference set" where
  "matchingClusters items =
     set (map (\<lambda>report. ObjectReferenceOf (crs_ClusterNamespace (cr_Spec report))
                                            (crs_ClusterName (cr_Spec report)))
            (filter (\<lambda>report. crs_Match (cr_Spec report)) items))"

definition previousClusters :: "Classifier \<Rightarrow> ObjectReference set" where
  "previousClusters classifier = mcs_ClusterRef ` set (c_MachingClusterStatuses classifier)"

text \<open>The status entry of a matching cluster: its reference and the classification of the labels.\<close>

definition statusOf :: "'k KeyManager \<Rightarrow> 'k \<Rightarrow> Classifier \<Rightarrow> ObjectReference \<Rightarrow> MachingClusterStatus" where
  "statusOf manager k classifier c =
     (case classifyLabels_loop manager k classifier c (c_ClassifierLabels classifier) ([], []) of
        (managed, unManaged) \<Rightarrow>
          \<lparr>mcs_ClusterRef = c, mcs_ManagedLabels = managed, mcs_UnManagedLabels = unManaged\<rparr>)"

section \<open>Concrete inputs\<close>

definition cluster_c1 :: Cluster where
  "cluster_c1 = \<lparr>cluster_Namespace = ''ns'', cluster_Name = ''c1'', cluster_DeletionTimestamp = None\<rparr>"

definition cluster_c2 :: Cluster where
  "cluster_c2 = \<lparr>cluster_Namespace = ''ns'', cluster_Name = ''c2'', cluster_DeletionTimestamp = None\<rparr>"

definition cluster_c3 :: Cluster where
  "cluster_c3 = \<lparr>cluster_Namespace = ''ns'', cluster_Name = ''c3'', cluster_DeletionTimestamp = Some 7\<rparr>"

definition info_c1 :: ClusterInfo where
  "info_c1 = \<lparr>ci_Cluster = ObjectReferenceOf ''ns'' ''c1'', ci_Hash = Some ''h1'',
     ci_Status = ClassifierStatusProvisioned, ci_FailureMessage = None\<rparr>"

definition classifier_one :: Classifier where
  "classifier_one = \<lparr>c_Name = ''acme'', c_Annotations = [], c_Finalizers = [],
     c_ClassifierLabels = [], c_ClusterInfo = [info_c1], c_MachingClusterStatuses = []\<rparr>"

definition client_empty :: Client where
  "client_empty = \<lparr>client_reports = (\<lambda>key. None), client_getFault = (\<lambda>key. None),
     client_createFault = (\<lambda>obj. None), client_updateFault = (\<lambda>obj. None)\<rparr>"

definition report_spec_c1 :: ClassifierReportSpec where
  "report_spec_c1 = \<lparr>crs_ClusterNamespace = ''ns'', crs_ClusterName = ''c1'',
     crs_ClassifierName = ''acme'', crs_Match = True\<rparr>"

definition report_without_label :: ClassifierReport where
  "report_without_label = \<lparr>cr_Namespace = ''projectsveltos'', cr_Name = ''acme'',
     cr_Labels = Some [(''app'', ''agent'')], cr_Spec = report_spec_c1\<rparr>"

definition ref_c1 :: ObjectReference where
  "ref_c1 = ObjectReferenceOf ''ns'' ''c1''"

definition feature_classifier :: feature where
  "feature_classifier = \<lparr>f_id = ''Classifier'', f_currentHash = (\<lambda>classifier. ''h1''),
     f_deploy = deployClassifierInCluster, f_undeploy = undeployClassifierFromCluster\<rparr>"

definition reconciler_pull :: ClassifierReconciler where
  "reconciler_pull = newReconciler CollectFromManagementCluster []"

text \<open>
  Every cluster exists, is ready and not paused; the queue holds no request and no result
  and accepts every request.
\<close>

definition env_ready :: Environment where
  "env_ready =
     \<lparr>getClusterType = (\<lambda>cluster. ClusterTypeCapi),
      isClusterPaused = (\<lambda>ns n t. Inr False),
      IsClusterReadyToBeConfigured = (\<lambda>cluster. Inr True),
      getKubeconfigFromAccessRequest = (\<lambda>ns n t. Inr None),
      getCluster = (\<lambda>ns n t. None),
      listClusters = Inr [cluster_c1, cluster_c2],
      listClassifierReports = (\<lambda>name. Inr []),
      removeClassifierReports = (\<lambda>classifier. None),
      removeAccessRequest = None,
      sha256 = (\<lambda>b. b),
      IsInProgress = (\<lambda>key. False),
      GetResult = (\<lambda>key. \<lparr>res_ResultStatus = Unavailable, res_Err = None\<rparr>),
      Deploy = (\<lambda>request. None),
      GetKeyManagerInstance = None\<rparr>"

text \<open>The same, with every cluster paused.\<close>

definition env_paused :: Environment where
  "env_paused = env_ready\<lparr>isClusterPaused := (\<lambda>ns n t. Inr True)\<rparr>"

text \<open>Every cluster paused, and an undeploy in progress for every pair.\<close>

definition env_paused_cleanup_in_progress :: Environment where
  "env_paused_cleanup_in_progress = env_paused\<lparr>IsInProgress := dk_cleanup\<rparr>"

text \<open>The same as \<open>env_ready\<close>, with the result of a failed request for every pair.\<close>

definition env_result_failed :: Environment where
  "env_result_failed =
     env_ready\<lparr>GetResult := (\<lambda>key. \<lparr>res_ResultStatus = Failed, res_Err = Some (Errorf ''boom'')\<rparr>)\<rparr>"

definition env_result_deployed :: Environment where
  "env_result_deployed =
     env_ready\<lparr>GetResult := (\<lambda>key. \<lparr>res_ResultStatus = Deployed, res_Err = None\<rparr>)\<rparr>"

text \<open>A Classifier whose last deployment in \<open>ns/c1\<close>, with the current hash, failed.\<close>

definition info_c1_failed :: ClusterInfo where
  "info_c1_failed = info_c1\<lparr>ci_Status := ClassifierStatusFailed\<rparr>"

definition classifier_failed :: Classifier where
  "classifier_failed = classifier_one\<lparr>c_ClusterInfo := [info_c1_failed]\<rparr>"

text \<open>A Classifier deployed in \<open>ns/c1\<close> that is being deleted.\<close>

definition classifier_deleted :: Classifier where
  "classifier_deleted = classifier_one\<lparr>c_Finalizers := [ClassifierFinalizer]\<rparr>"

definition request_deploy_c1 :: Request where
  "request_deploy_c1 =
     \<lparr>rq_key = \<lparr>dk_clusterNamespace = ''ns'', dk_clusterName = ''c1'', dk_applicant = ''acme'',
                dk_featureID = ''Classifier'', dk_clusterType = ClusterTypeCapi, dk_cleanup = False\<rparr>,
      rq_handler = deployClassifierInCluster, rq_options = \<lparr>HandlerOptions = None\<rparr>\<rparr>"

text \<open>The same as \<open>env_ready\<close>, with a deploy and an undeploy in progress for every pair.\<close>

definition env_all_in_progress :: Environment where
  "env_all_in_progress = env_ready\<lparr>IsInProgress := (\<lambda>key. True)\<rparr>"

text \<open>
  Modelled from the spec: the label key manager (package \<^verbatim>\<open>keymanager\<close>), used to run
  the reconciler on concrete inputs. A state lists, for a cluster and a label key, the
  Classifier that owns the key. Registering claims every key of the Classifier's labels
  that has no owner; removing stale registrations releases the keys the Classifier owns
  on the cluster and no longer asks for; removing all registrations releases all the keys
  it owns on the cluster; a Classifier can manage a key it owns.
\<close>

type_synonym claims = "((string \<times> string \<times> string) \<times> string) list"

fun registerLabels :: "string \<Rightarrow> string \<Rightarrow> string \<Rightarrow> ClassifierLabel list \<Rightarrow> claims \<Rightarrow> claims" where
  "registerLabels owner ns n [] k = k"
| "registerLabels owner ns n (label # rest) k =
     (if map_of k (ns, n, cl_Key label) = None
      then registerLabels owner ns n rest (k @ [((ns, n, cl_Key label), owner)])
      else registerLabels owner ns n rest k)"

definition specKeyManager :: "claims KeyManager" where
  "specKeyManager =
     \<lparr>RemoveStaleRegistrations = (\<lambda>k classifier ns n.
        filter (\<lambda>claim. \<not> (snd claim = c_Name classifier \<and> fst (fst claim) = ns
                            \<and> fst (snd (fst claim)) = n
                            \<and> snd (snd (fst claim)) \<notin> set (map cl_Key (c_ClassifierLabels classifier)))) k),
      RegisterClassifierForLabels = (\<lambda>k classifier ns n.
        registerLabels (c_Name classifier) ns n (c_ClassifierLabels classifier) k),
      RemoveAllRegistrations = (\<lambda>k classifier ns n.
        filter (\<lambda>claim. \<not> (snd claim = c_Name classifier \<and> fst (fst claim) = ns
                            \<and> fst (snd (fst claim)) = n)) k),
      CanManageLabel = (\<lambda>k classifier ns n key. map_of k (ns, n, key) = Some (c_Name classifier)),
      GetManagerForKey = (\<lambda>k ns n key.
        (case map_of k (ns, n, key) of
           None \<Rightarrow> Inl (Errorf ''no manager'')
         | Some owner \<Rightarrow> Inr owner))\<rparr>"

definition manager_empty :: "claims managerState" where
  "manager_empty = ([], [])"

text \<open>The same as \<open>env_ready\<close>, with the result of a completed undeploy for every pair.\<close>

definition env_result_removed :: Environment where
  "env_result_removed =
     env_ready\<lparr>GetResult := (\<lambda>key. \<lparr>res_ResultStatus = Removed, res_Err = None\<rparr>)\<rparr>"

text \<open>Two clusters report a match for the Classifier \<open>acme\<close>, which asks for one label.\<close>

definition report_c1 :: ClassifierReport where
  "report_c1 = \<lparr>cr_Namespace = ''ns'', cr_Name = ''acme--c1'',
     cr_Labels = Some [(ClassifierLabelName, ''acme'')],
     cr_Spec = \<lparr>crs_ClusterNamespace = ''ns'', crs_ClusterName = ''c1'',
                crs_ClassifierName = ''acme'', crs_Match = True\<rparr>\<rparr>"

definition report_c2 :: ClassifierReport where
  "report_c2 = \<lparr>cr_Namespace = ''ns'', cr_Name = ''acme--c2'',
     cr_Labels = Some [(ClassifierLabelName, ''acme'')],
     cr_Spec = \<lparr>crs_ClusterNamespace = ''ns'', crs_ClusterName = ''c2'',
                crs_ClassifierName = ''acme'', crs_Match = True\<rparr>\<rparr>"

definition env_two_matches :: Environment where
  "env_two_matches = env_ready\<lparr>listClassifierReports := (\<lambda>name. Inr [report_c1, report_c2])\<rparr>"

definition classifier_team :: Classifier where
  "classifier_team = \<lparr>c_Name = ''acme'', c_Annotations = [], c_Finalizers = [],
     c_ClassifierLabels = [\<lparr>cl_Key = ''team'', cl_Value = ''payments''\<rparr>],
     c_ClusterInfo = [], c_MachingClusterStatuses = []\<rparr>"

text \<open>The same Classifier after a pass in which \<open>ns/c3\<close> matched.\<close>

definition classifier_team_c3 :: Classifier where
  "classifier_team_c3 =
     classifier_team\<lparr>c_MachingClusterStatuses :=
       [\<lparr>mcs_ClusterRef = ObjectReferenceOf ''ns'' ''c3'', mcs_ManagedLabels = [''team''],
         mcs_UnManagedLabels = []\<rparr>]\<rparr>"

text \<open>The same as \<open>env_ready\<close>, with the key manager unavailable.\<close>

definition env_no_manager :: Environment where
  "env_no_manager = env_ready\<lparr>GetKeyManagerInstance := Some (ApiError ''no key manager'')\<rparr>"

text \<open>The Classifier being deleted, carrying the pause annotation.\<close>

definition classifier_deleted_annotated :: Classifier where
  "classifier_deleted_annotated = classifier_deleted\<lparr>c_Annotations := [(PausedAnnotation, ''true'')]\<rparr>"

text \<open>A second Classifier, without clusters.\<close>

definition classifier_beta :: Classifier where
  "classifier_beta = \<lparr>c_Name = ''beta'', c_Annotations = [], c_Finalizers = [],
     c_ClassifierLabels = [], c_ClusterInfo = [], c_MachingClusterStatuses = []\<rparr>"

section \<open>Properties\<close>

subsection \<open>updateClusterInfo\<close>

lemma getListOfClusters_loop_eq:
  "getListOfClusters_loop items matching = matching @ liveClusters items"
  by (induction items arbitrary: matching) (simp_all add: liveClusters_def)

lemma clusterMap_loop_set:
  "set (clusterMap_loop infos clusterMap) = set clusterMap \<union> set (clusterIDs infos)"
  by (induction infos arbitrary: clusterMap) (auto simp: clusterIDs_def)

lemma newClusterInfo_loop_eq:
  "newClusterInfo_loop clusterMap cs acc =
     acc @ map ClusterInfoOf (filter (\<lambda>c. getClusterID c \<notin> set clusterMap) cs)"
  by (induction cs arbitrary: acc) simp_all

lemma clusterIDs_append: "clusterIDs (xs @ ys) = clusterIDs xs @ clusterIDs ys"
  by (simp add: clusterIDs_def)

lemma clusterIDs_new:
  "clusterIDs (map ClusterInfoOf cs) = map getClusterID cs"
  by (simp add: clusterIDs_def ClusterInfoOf_def comp_def)

text \<open>
  C9. \<^verbatim>\<open>updateClusterInfo\<close> only grows \<open>Status.ClusterInfo\<close>. When the listing of
  clusters fails, the error is returned and the Classifier is untouched. Otherwise the new
  \<open>Status.ClusterInfo\<close> is the old one, unchanged and in place, followed by one entry
  with empty hash, status and message for each live (not deleting) cluster whose
  namespace/name key is not among the keys of the old entries, and nothing else of the
  Classifier changes. Since presence is decided by that key, entries stay unique per
  cluster: if the old entries have pairwise different keys, and so have the listed live
  clusters, then so have the entries of the result.
\<close>

theorem updateClusterInfo_only_grows:
  "(case listed of
      Inl err \<Rightarrow> updateClusterInfo listed classifier = (Some err, classifier)
    | Inr items \<Rightarrow>
        (let new = map ClusterInfoOf
                     (filter (\<lambda>c. getClusterID c \<notin> set (clusterIDs (c_ClusterInfo classifier)))
                        (liveClusters items));
             final = c_ClusterInfo classifier @ new
         in updateClusterInfo listed classifier = (None, classifier\<lparr>c_ClusterInfo := final\<rparr>)
            \<and> (distinct (clusterIDs (c_ClusterInfo classifier))
                 \<and> distinct (map getClusterID (liveClusters items))
                 \<longrightarrow> distinct (clusterIDs final))))"
proof (cases listed)
  case (Inl err)
  then show ?thesis
    by (simp add: updateClusterInfo_def getListOfClusters_def)
next
  case (Inr items)
  let ?old = "c_ClusterInfo classifier"
  let ?new = "filter (\<lambda>c. getClusterID c \<notin> set (clusterIDs ?old)) (liveClusters items)"
  have run: "updateClusterInfo listed classifier
      = (None, classifier\<lparr>c_ClusterInfo := ?old @ map ClusterInfoOf ?new\<rparr>)"
    using Inr
    by (simp add: updateClusterInfo_def getListOfClusters_def getListOfClusters_loop_eq
        clusterMap_loop_set newClusterInfo_loop_eq SetClusterInfo_def Let_def)
  have uniq: "distinct (clusterIDs (?old @ map ClusterInfoOf ?new))"
    if "distinct (clusterIDs ?old)" "distinct (map getClusterID (liveClusters items))"
  proof -
    have "distinct (map getClusterID ?new)"
      using that(2) by (simp add: distinct_map_filter)
    moreover have "set (clusterIDs ?old) \<inter> set (map getClusterID ?new) = {}"
      by auto
    ultimately show ?thesis
      using that(1) by (simp add: clusterIDs_append clusterIDs_new)
  qed
  show ?thesis
    using Inr run uniq by (simp add: Let_def)
qed

theorem updateClusterInfo_only_grows_witness:
  "distinct (clusterIDs (c_ClusterInfo classifier_one))
   \<and> distinct (map getClusterID (liveClusters [cluster_c1, cluster_c2, cluster_c3]))
   \<and> updateClusterInfo (Inr [cluster_c1, cluster_c2, cluster_c3]) classifier_one
       = (None, classifier_one\<lparr>c_ClusterInfo := [info_c1, ClusterInfoOf (ObjectReferenceOf ''ns'' ''c2'')]\<rparr>)
   \<and> distinct (clusterIDs [info_c1, ClusterInfoOf (ObjectReferenceOf ''ns'' ''c2'')])"
  using updateClusterInfo_only_grows [of "Inr [cluster_c1, cluster_c2, cluster_c3]" classifier_one]
  by (simp add: Let_def classifier_one_def info_c1_def cluster_c1_def cluster_c2_def cluster_c3_def
      liveClusters_def clusterIDs_def getClusterID_def ObjectReferenceOf_def ClusterInfoOf_def)

subsection \<open>updateClassifierReport\<close>

text \<open>
  C10. When a ClassifierReport pulled from a managed cluster has a nil \<open>Labels\<close> map, or
  its labels lack the classifier-name label, \<^verbatim>\<open>updateClassifierReport\<close> returns an
  error and the management cluster is as it was: no mirrored report is created or updated.
\<close>

theorem updateClassifierReport_malformed:
  assumes "cr_Labels classiferReport = None
           \<or> (\<exists>labels. cr_Labels classiferReport = Some labels
                  \<and> map_of labels ClassifierLabelName = None)"
  shows "\<exists>msg. updateClassifierReport c cluster classiferReport = (Some (Errorf msg), c)"
  using assms by (auto simp: updateClassifierReport_def)

theorem updateClassifierReport_malformed_witness:
  "cr_Labels report_without_label = Some [(''app'', ''agent'')]
   \<and> map_of [(''app'', ''agent'')] ClassifierLabelName = None
   \<and> (\<exists>msg. updateClassifierReport client_empty cluster_c1 report_without_label
         = (Some (Errorf msg), client_empty))"
proof -
  have l: "cr_Labels report_without_label = Some [(''app'', ''agent'')]"
    by (simp add: report_without_label_def)
  have m: "map_of [(''app'', ''agent'')] ClassifierLabelName = None"
    by (simp add: ClassifierLabelName_def)
  from l m have
    "cr_Labels report_without_label = None
     \<or> (\<exists>labels. cr_Labels report_without_label = Some labels
            \<and> map_of labels ClassifierLabelName = None)"
    by blast
  from updateClassifierReport_malformed [OF this, of client_empty cluster_c1] l m
  show ?thesis by blast
qed

subsection \<open>updateMaps\<close>

lemma members_Some: "members (Some xs) = set xs"
  by (simp add: members_def)

lemma members_upd:
  "members ((cm(k \<mapsto> v)) C) = (if C = k then set v else members (cm C))"
  by (simp add: members_def)

lemma getClusterMapForEntry_members:
  assumes "getClusterMapForEntry cm k = (s, cm')"
  shows "set s = members (cm k)" and "members (cm' C) = members (cm C)"
  using assms by (cases "cm k"; cases "C = k"; simp add: getClusterMapForEntry_def members_def; fastforce)+

lemma members_addConsumer_loop:
  "members (addConsumer_loop P infos cm C)
     = members (cm C) \<union> (if C \<in> set (map (\<lambda>info. clusterPolicyRef (ci_Cluster info)) infos) then {P} else {})"
proof (induction infos arbitrary: cm)
  case Nil
  then show ?case by simp
next
  case (Cons info infos)
  obtain s cm' where g: "getClusterMapForEntry cm (clusterPolicyRef (ci_Cluster info)) = (s, cm')"
    by (cases "getClusterMapForEntry cm (clusterPolicyRef (ci_Cluster info))")
  show ?case
    using getClusterMapForEntry_members(1) [OF g] getClusterMapForEntry_members(2) [OF g, of C]
    by (auto simp: g Cons.IH members_upd members_Some Set_Insert_def)
qed

lemma members_removeConsumer_loop:
  "members (removeConsumer_loop P tbr cm C)
     = members (cm C) - (if C \<in> set tbr then {P} else {})"
proof (induction tbr arbitrary: cm)
  case Nil
  then show ?case by simp
next
  case (Cons k tbr)
  obtain s cm' where g: "getClusterMapForEntry cm k = (s, cm')"
    by (cases "getClusterMapForEntry cm k")
  show ?case
    using getClusterMapForEntry_members(1) [OF g] getClusterMapForEntry_members(2) [OF g, of C]
    by (auto simp: g Cons.IH members_upd members_Some Set_Erase_def)
qed

lemma set_currentClusters_loop:
  "set (currentClusters_loop infos cur)
     = set cur \<union> set (map (\<lambda>info. clusterPolicyRef (ci_Cluster info)) infos)"
  by (induction infos arbitrary: cur) (auto simp: Set_Insert_def)

lemma members_ClassifierMap_updateMaps:
  "members (ClassifierMap (updateMaps classifier r) P)
     = (if P = classifierPolicyRef (c_Name classifier) then statusClusters classifier
        else members (ClassifierMap r P))"
  by (simp add: updateMaps_def Let_def members_def set_currentClusters_loop statusClusters_def)

lemma set_toBeRemoved:
  "set (case ClassifierMap r P of Some v \<Rightarrow> Set_Difference v cur | None \<Rightarrow> [])
     = members (ClassifierMap r P) - set cur"
  by (cases "ClassifierMap r P") (auto simp: members_def Set_Difference_def)

lemma members_ClusterMap_updateMaps:
  "members (ClusterMap (updateMaps classifier r) C)
     = (members (ClusterMap r C)
          \<union> (if C \<in> statusClusters classifier then {classifierPolicyRef (c_Name classifier)} else {}))
       - (if C \<in> members (ClassifierMap r (classifierPolicyRef (c_Name classifier))) - statusClusters classifier
          then {classifierPolicyRef (c_Name classifier)} else {})"
  by (simp add: updateMaps_def Let_def members_addConsumer_loop members_removeConsumer_loop
      set_currentClusters_loop statusClusters_def set_toBeRemoved)

lemma mirror_updateMaps:
  assumes "mirror r"
  shows "mirror (updateMaps classifier r)"
  unfolding mirror_def
proof (intro allI)
  fix P C
  have inv: "P \<in> members (ClusterMap r C) \<longleftrightarrow> C \<in> members (ClassifierMap r P)" for P C
    using assms by (simp add: mirror_def)
  show "P \<in> members (ClusterMap (updateMaps classifier r) C)
        \<longleftrightarrow> C \<in> members (ClassifierMap (updateMaps classifier r) P)"
    unfolding members_ClusterMap_updateMaps members_ClassifierMap_updateMaps
    using inv by auto
qed

lemma mirror_newReconciler: "mirror (newReconciler mode endpoint)"
  by (simp add: mirror_def newReconciler_def members_def)

lemma mirror_afterPasses: "mirror r \<Longrightarrow> mirror (afterPasses history r)"
  unfolding afterPasses_def
  by (induction history arbitrary: r) (simp_all add: mirror_updateMaps)

lemma afterPasses_snoc:
  "afterPasses (history @ [classifier]) r = updateMaps classifier (afterPasses history r)"
  by (simp add: afterPasses_def)

lemma recordedClusters_snoc:
  "recordedClusters (history @ [classifier])
     = (recordedClusters history)(classifierPolicyRef (c_Name classifier) := statusClusters classifier)"
  by (simp add: recordedClusters_def)

lemma members_ClassifierMap_afterPasses:
  "members (ClassifierMap (afterPasses history (newReconciler mode endpoint)) P)
     = recordedClusters history P"
proof (induction history rule: rev_induct)
  case Nil
  show ?case by (simp add: afterPasses_def recordedClusters_def newReconciler_def members_def)
next
  case (snoc classifier history)
  then show ?case
    by (simp add: afterPasses_snoc recordedClusters_snoc members_ClassifierMap_updateMaps)
qed

text \<open>
  C5, as amended. After every completed execution of \<^verbatim>\<open>updateMaps\<close> the two index
  maps are mirror images. The maps start empty and only \<^verbatim>\<open>updateMaps\<close> writes them, so
  a state of the index is the one after the executions of some history of Classifiers.
  After one more execution, for a Classifier: every Classifier P and cluster C satisfy that
  P is a member of \<open>ClusterMap[C]\<close> if and only if C is a member of \<open>ClassifierMap[P]\<close>;
  the \<open>ClassifierMap\<close> entry of the Classifier just processed holds exactly the clusters
  listed in its \<open>Status.ClusterInfo\<close> at the call; and the entry of every other Classifier
  P is left as it was, the clusters listed in P's \<open>Status.ClusterInfo\<close> when
  \<^verbatim>\<open>updateMaps\<close> last ran for P (none if it never did). The cluster map holds the same
  pairs.
\<close>

theorem updateMaps_mirror:
  "mirror (updateMaps classifier (afterPasses history (newReconciler mode endpoint)))
   \<and> (\<forall>P. members (ClassifierMap
               (updateMaps classifier (afterPasses history (newReconciler mode endpoint))) P)
            = (if P = classifierPolicyRef (c_Name classifier) then statusClusters classifier
               else recordedClusters history P))
   \<and> (\<forall>P C. P \<in> members (ClusterMap
                 (updateMaps classifier (afterPasses history (newReconciler mode endpoint))) C)
              \<longleftrightarrow> C \<in> (if P = classifierPolicyRef (c_Name classifier) then statusClusters classifier
                        else recordedClusters history P))"
proof -
  let ?r = "updateMaps classifier (afterPasses history (newReconciler mode endpoint))"
  have m: "mirror ?r"
    by (simp add: mirror_updateMaps mirror_afterPasses mirror_newReconciler)
  have c: "members (ClassifierMap ?r P)
            = (if P = classifierPolicyRef (c_Name classifier) then statusClusters classifier
               else recordedClusters history P)" for P
    by (simp add: members_ClassifierMap_updateMaps members_ClassifierMap_afterPasses)
  have "P \<in> members (ClusterMap ?r C)
          \<longleftrightarrow> C \<in> (if P = classifierPolicyRef (c_Name classifier) then statusClusters classifier
                    else recordedClusters history P)" for P C
    using m c [of P] unfolding mirror_def by blast
  with m c show ?thesis by blast
qed

text \<open>
  C5 as stated fails for a Classifier other than the one just processed. The Classifier
  \<open>acme\<close> has one entry, for the paused cluster \<open>ns/c1\<close>: \<^verbatim>\<open>updateMaps\<close> records the
  cluster, and \<^verbatim>\<open>deployClassifier\<close>, which runs after it in the same pass, leaves
  \<open>Status.ClusterInfo\<close> empty. After the next execution of \<^verbatim>\<open>updateMaps\<close>, for the
  Classifier \<open>beta\<close>, \<open>ClassifierMap[acme]\<close> still holds \<open>ns/c1\<close>.
\<close>

theorem updateMaps_mirror_counterexample:
  "fst (snd (deployClassifier reconciler_pull env_paused classifier_one feature_classifier))
     = classifier_one\<lparr>c_ClusterInfo := []\<rparr>
   \<and> statusClusters (classifier_one\<lparr>c_ClusterInfo := []\<rparr>) = {}
   \<and> c_Name (classifier_one\<lparr>c_ClusterInfo := []\<rparr>) = c_Name classifier_one
   \<and> members (ClassifierMap (updateMaps classifier_beta (updateMaps classifier_one reconciler_pull))
        (classifierPolicyRef (c_Name classifier_one)))
       = {clusterPolicyRef ref_c1}
   \<and> members (ClassifierMap (updateMaps classifier_beta (updateMaps classifier_one reconciler_pull))
        (classifierPolicyRef (c_Name classifier_one)))
       \<noteq> statusClusters (classifier_one\<lparr>c_ClusterInfo := []\<rparr>)"
proof -
  have d: "fst (snd (deployClassifier reconciler_pull env_paused classifier_one feature_classifier))
     = classifier_one\<lparr>c_ClusterInfo := []\<rparr>"
    by (simp add: env_paused_def env_ready_def feature_classifier_def reconciler_pull_def
        newReconciler_def classifier_one_def info_c1_def ObjectReferenceOf_def
        processClassifier_def getCurrentHash_def canProceed_def isPaused_def HasPaused_def
        deployClassifier_def deployClassifier_step_def SetClusterInfo_def)
  have s: "statusClusters (classifier_one\<lparr>c_ClusterInfo := []\<rparr>) = {}"
    by (simp add: statusClusters_def)
  have n: "classifierPolicyRef (c_Name classifier_one) \<noteq> classifierPolicyRef (c_Name classifier_beta)"
    by (simp add: classifierPolicyRef_def classifier_one_def classifier_beta_def)
  have "members (ClassifierMap (updateMaps classifier_beta (updateMaps classifier_one reconciler_pull))
        (classifierPolicyRef (c_Name classifier_one)))
       = statusClusters classifier_one"
    using n by (simp add: members_ClassifierMap_updateMaps)
  also have "\<dots> = {clusterPolicyRef ref_c1}"
    by (simp add: statusClusters_def classifier_one_def info_c1_def ref_c1_def)
  finally show ?thesis using d s by simp
qed

subsection \<open>reconcileDelete\<close>

lemma removeClassifier_None_iff:
  "fst (removeClassifier env classifier c f) = None \<longleftrightarrow>
     isPaused env c classifier = Inr True \<or> removalConfirmed env classifier f c"
  by (auto simp: removeClassifier_def removalConfirmed_def Let_def split: sum.splits option.splits)

lemma removeClassifier_pending:
  assumes "removalPending env classifier f c"
  shows "snd (removeClassifier env classifier c f) = [undeployRequest env classifier f c]"
  using assms
  by (auto simp: removeClassifier_def removalPending_def undeployRequest_def Let_def
      split: sum.splits option.splits)

lemma undeployClassifier_clusters_set:
  assumes "undeployClassifier_clusters env infos acc = Inr clusters"
  shows "set clusters = set acc \<union> {c \<in> ci_Cluster ` set infos. clusterExists env c}"
  using assms
proof (induction infos arbitrary: acc)
  case Nil
  then show ?case by simp
next
  case (Cons info infos)
  show ?case
  proof (cases "getCluster env (or_Namespace (ci_Cluster info)) (or_Name (ci_Cluster info))
                  (getClusterType env (ci_Cluster info))")
    case None
    with Cons.prems have "undeployClassifier_clusters env infos (acc @ [ci_Cluster info]) = Inr clusters"
      by (simp add: Let_def)
    from Cons.IH [OF this] None show ?thesis
      by (auto simp: clusterExists_def)
  next
    case (Some err)
    with Cons.prems have "undeployClassifier_clusters env infos acc = Inr clusters"
      by (simp add: Let_def split: if_splits)
    from Cons.IH [OF this] Some show ?thesis
      by (auto simp: clusterExists_def)
  qed
qed

lemma undeployClassifier_clusters_all:
  assumes "undeployClassifier_clusters env infos acc = Inr clusters"
  shows "\<forall>c \<in> ci_Cluster ` set infos. clusterExists env c \<or> clusterGone env c"
  using assms
proof (induction infos arbitrary: acc)
  case Nil
  then show ?case by simp
next
  case (Cons info infos)
  show ?case
  proof (cases "getCluster env (or_Namespace (ci_Cluster info)) (or_Name (ci_Cluster info))
                  (getClusterType env (ci_Cluster info))")
    case None
    with Cons.prems have "undeployClassifier_clusters env infos (acc @ [ci_Cluster info]) = Inr clusters"
      by (simp add: Let_def)
    from Cons.IH [OF this] None show ?thesis
      by (auto simp: clusterExists_def)
  next
    case (Some err)
    with Cons.prems have "undeployClassifier_clusters env infos acc = Inr clusters" "IsNotFound err"
      by (simp_all add: Let_def split: if_splits)
    from Cons.IH [OF this(1)] this(2) Some show ?thesis
      by (auto simp: clusterGone_def)
  qed
qed

lemma undeployClassifier_clusters_Inr:
  assumes "\<forall>c \<in> ci_Cluster ` set infos. clusterExists env c \<or> clusterGone env c"
  shows "\<exists>clusters. undeployClassifier_clusters env infos acc = Inr clusters"
  using assms
  by (induction infos arbitrary: acc)
     (auto simp: Let_def clusterExists_def clusterGone_def split: option.splits)

lemma undeployClassifier_remove_nil:
  "fst (undeployClassifier_remove env classifier f cs (acc, d)) = [] \<longleftrightarrow>
     acc = [] \<and> (\<forall>c \<in> set cs. fst (removeClassifier env classifier c f) = None)"
  by (induction cs arbitrary: acc d) (auto split: prod.splits option.splits)

lemma undeployClassifier_remove_dispatched:
  "set (snd (undeployClassifier_remove env classifier f cs (acc, d)))
     = set d \<union> (\<Union>c \<in> set cs. set (snd (removeClassifier env classifier c f)))"
  by (induction cs arbitrary: acc d) (auto split: prod.splits option.splits)

lemma undeployClassifier_Finalizers:
  "c_Finalizers (fst (snd (undeployClassifier env classifier f))) = c_Finalizers classifier"
  by (simp add: undeployClassifier_def SetMachingClusterStatuses_def SetClusterInfo_def
      split: sum.splits prod.splits)

lemma undeployClassifier_None:
  assumes "fst (undeployClassifier env classifier f) = None"
  shows "\<forall>c \<in> ci_Cluster ` set (c_ClusterInfo classifier).
           clusterGone env c \<or> isPaused env c classifier = Inr True
           \<or> removalConfirmed env classifier f c"
proof -
  from assms obtain clusters
    where cl: "undeployClassifier_clusters env (c_ClusterInfo classifier) [] = Inr clusters"
    by (auto simp: undeployClassifier_def split: sum.splits)
  obtain clusterInfo dispatched
    where rm: "undeployClassifier_remove env classifier f clusters ([], []) = (clusterInfo, dispatched)"
    by (cases "undeployClassifier_remove env classifier f clusters ([], [])") auto
  from assms cl rm have "clusterInfo = []"
    by (auto simp: undeployClassifier_def split: if_splits)
  with rm have "fst (undeployClassifier_remove env classifier f clusters ([], [])) = []"
    by simp
  then have all: "\<forall>c \<in> set clusters. fst (removeClassifier env classifier c f) = None"
    by (simp add: undeployClassifier_remove_nil)
  show ?thesis
  proof
    fix c assume c: "c \<in> ci_Cluster ` set (c_ClusterInfo classifier)"
    from undeployClassifier_clusters_all [OF cl] c
    have "clusterExists env c \<or> clusterGone env c" by blast
    then show "clusterGone env c \<or> isPaused env c classifier = Inr True
               \<or> removalConfirmed env classifier f c"
    proof
      assume "clusterExists env c"
      with undeployClassifier_clusters_set [OF cl] c have "c \<in> set clusters" by simp
      with all have "fst (removeClassifier env classifier c f) = None" by blast
      then show ?thesis by (simp add: removeClassifier_None_iff)
    qed simp
  qed
qed

lemma undeployClassifier_Some:
  assumes "c \<in> ci_Cluster ` set (c_ClusterInfo classifier)"
      and "clusterExists env c"
      and "fst (removeClassifier env classifier c f) \<noteq> None"
  shows "fst (undeployClassifier env classifier f) \<noteq> None"
proof
  assume "fst (undeployClassifier env classifier f) = None"
  from undeployClassifier_None [OF this] assms(1)
  have "clusterGone env c \<or> isPaused env c classifier = Inr True
        \<or> removalConfirmed env classifier f c" by blast
  with assms(2,3) show False
    by (auto simp: removeClassifier_None_iff clusterGone_def clusterExists_def)
qed

lemma undeployClassifier_dispatched:
  assumes "\<forall>c \<in> ci_Cluster ` set (c_ClusterInfo classifier). clusterExists env c \<or> clusterGone env c"
      and "c \<in> ci_Cluster ` set (c_ClusterInfo classifier)"
      and "clusterExists env c"
      and "removalPending env classifier f c"
  shows "undeployRequest env classifier f c \<in> set (snd (snd (undeployClassifier env classifier f)))"
proof -
  from undeployClassifier_clusters_Inr [OF assms(1)] obtain clusters
    where cl: "undeployClassifier_clusters env (c_ClusterInfo classifier) [] = Inr clusters"
    by blast
  from undeployClassifier_clusters_set [OF cl] assms(2,3) have "c \<in> set clusters" by simp
  moreover have "undeployRequest env classifier f c
      \<in> set (snd (removeClassifier env classifier c f))"
    using removeClassifier_pending [OF assms(4)] by simp
  ultimately have "undeployRequest env classifier f c
      \<in> set (snd (undeployClassifier_remove env classifier f clusters ([], [])))"
    unfolding undeployClassifier_remove_dispatched by blast
  then show ?thesis
    using cl
    by (cases "undeployClassifier_remove env classifier f clusters ([], [])")
       (auto simp: undeployClassifier_def)
qed


lemma removeAllRegistrations_fst:
  "fst (removeAllRegistrations manager env classifier st) = GetKeyManagerInstance env"
  by (simp add: removeAllRegistrations_def split: option.splits)

lemma reconcileDelete_no_manager:
  assumes "GetKeyManagerInstance env = Some err"
  shows "out_classifier (reconcileDelete manager env f r st classifier) = classifier"
  using assms by (simp add: reconcileDelete_def removeAllRegistrations_def)

lemma reconcileDelete_undeploy_error:
  assumes "GetKeyManagerInstance env = None"
      and "fst (undeployClassifier env classifier f) \<noteq> None"
  shows "out_result (reconcileDelete manager env f r st classifier)
           = \<lparr>Requeue = True, RequeueAfter = 20\<rparr>"
    and "out_error (reconcileDelete manager env f r st classifier) = None"
    and "out_classifier (reconcileDelete manager env f r st classifier)
           = fst (snd (undeployClassifier env classifier f))"
  using assms
  by (auto simp: reconcileDelete_def removeAllRegistrations_def Let_def deleteRequeueAfter_def
      split: prod.splits option.splits)

lemma reconcileDelete_dispatched:
  assumes "GetKeyManagerInstance env = None"
  shows "out_dispatched (reconcileDelete manager env f r st classifier)
           = snd (snd (undeployClassifier env classifier f))"
  using assms
  by (auto simp: reconcileDelete_def removeAllRegistrations_def Let_def
      split: prod.splits option.splits)

lemma reconcileDelete_finalizer_removed:
  assumes "ClassifierFinalizer \<in> set (c_Finalizers classifier)"
      and "ClassifierFinalizer \<notin> set (c_Finalizers
             (out_classifier (reconcileDelete manager env f r st classifier)))"
  shows "fst (undeployClassifier env classifier f) = None"
proof (rule ccontr)
  assume u: "fst (undeployClassifier env classifier f) \<noteq> None"
  show False
  proof (cases "GetKeyManagerInstance env")
    case None
    from reconcileDelete_undeploy_error(3) [OF None u, of manager r st] assms show False
      by (simp add: undeployClassifier_Finalizers)
  next
    case (Some err)
    from reconcileDelete_no_manager [OF Some, of manager f r st classifier] assms show False by simp
  qed
qed

lemma isPaused_True:
  assumes "isPaused env c classifier = Inr True"
  shows "clusterPaused env c \<or> HasPaused classifier"
  using assms by (auto simp: isPaused_def clusterPaused_def split: sum.splits if_splits)

lemma reconcileDelete_no_manager_outcome:
  assumes "GetKeyManagerInstance env = Some err"
  shows "out_result (reconcileDelete manager env f r st classifier)
           = \<lparr>Requeue = False, RequeueAfter = 0\<rparr>"
    and "out_error (reconcileDelete manager env f r st classifier) = Some err"
    and "out_dispatched (reconcileDelete manager env f r st classifier) = []"
  using assms by (simp_all add: reconcileDelete_def removeAllRegistrations_def)

text \<open>
  C7, as amended. On deletion of a Classifier: (1) the finalizer is removed only in a
  pass where, for every entry of \<open>Status.ClusterInfo\<close>, the cluster no longer exists, or the
  cluster is paused, or the Classifier carries the pause annotation, or the undeploy has
  reached Removed (no deploy in progress and the queue's result is Removed); (2) while some
  entry's cluster exists, is not paused in either way and has not reached Removed, the
  finalizer is retained, and \<^verbatim>\<open>reconcileDelete\<close> asks for a requeue after 20 seconds
  without an error when the key manager is obtained, and returns the error of the key
  manager with an empty result when it is not; (3) when the key manager is obtained and every
  cluster can be read, an undeploy request is dispatched for every entry whose cluster
  exists and needs one.
\<close>

theorem finalizer_removed_only_when_settled:
  "(ClassifierFinalizer \<in> set (c_Finalizers classifier)
      \<and> ClassifierFinalizer \<notin> set (c_Finalizers
            (out_classifier (reconcileDelete manager env f r st classifier))) \<longrightarrow>
      (\<forall>c \<in> ci_Cluster ` set (c_ClusterInfo classifier).
          clusterGone env c
          \<or> (isPaused env c classifier = Inr True \<and> (clusterPaused env c \<or> HasPaused classifier))
          \<or> removalConfirmed env classifier f c))
   \<and> ((\<exists>c \<in> ci_Cluster ` set (c_ClusterInfo classifier).
            clusterExists env c \<and> isPaused env c classifier \<noteq> Inr True
            \<and> \<not> removalConfirmed env classifier f c) \<longrightarrow>
      c_Finalizers (out_classifier (reconcileDelete manager env f r st classifier))
          = c_Finalizers classifier
      \<and> (case GetKeyManagerInstance env of
            None \<Rightarrow>
              out_result (reconcileDelete manager env f r st classifier)
                = \<lparr>Requeue = True, RequeueAfter = 20\<rparr>
              \<and> out_error (reconcileDelete manager env f r st classifier) = None
          | Some err \<Rightarrow>
              out_result (reconcileDelete manager env f r st classifier)
                = \<lparr>Requeue = False, RequeueAfter = 0\<rparr>
              \<and> out_error (reconcileDelete manager env f r st classifier) = Some err
              \<and> out_dispatched (reconcileDelete manager env f r st classifier) = []))
   \<and> (GetKeyManagerInstance env = None
      \<and> (\<forall>c \<in> ci_Cluster ` set (c_ClusterInfo classifier). clusterExists env c \<or> clusterGone env c) \<longrightarrow>
      (\<forall>c \<in> ci_Cluster ` set (c_ClusterInfo classifier).
          clusterExists env c \<and> removalPending env classifier f c \<longrightarrow>
          undeployRequest env classifier f c
            \<in> set (out_dispatched (reconcileDelete manager env f r st classifier))))"
proof (intro conjI impI)
  assume "ClassifierFinalizer \<in> set (c_Finalizers classifier)
      \<and> ClassifierFinalizer \<notin> set (c_Finalizers
            (out_classifier (reconcileDelete manager env f r st classifier)))"
  then have "fst (undeployClassifier env classifier f) = None"
    using reconcileDelete_finalizer_removed by blast
  from undeployClassifier_None [OF this]
  show "\<forall>c \<in> ci_Cluster ` set (c_ClusterInfo classifier).
          clusterGone env c
          \<or> (isPaused env c classifier = Inr True \<and> (clusterPaused env c \<or> HasPaused classifier))
          \<or> removalConfirmed env classifier f c"
    using isPaused_True by blast
next
  assume a: "\<exists>c \<in> ci_Cluster ` set (c_ClusterInfo classifier).
            clusterExists env c \<and> isPaused env c classifier \<noteq> Inr True
            \<and> \<not> removalConfirmed env classifier f c"
  then obtain c where c: "c \<in> ci_Cluster ` set (c_ClusterInfo classifier)" "clusterExists env c"
      "fst (removeClassifier env classifier c f) \<noteq> None"
    by (auto simp: removeClassifier_None_iff)
  have u: "fst (undeployClassifier env classifier f) \<noteq> None"
    by (rule undeployClassifier_Some [OF c])
  show "c_Finalizers (out_classifier (reconcileDelete manager env f r st classifier))
          = c_Finalizers classifier"
  proof (cases "GetKeyManagerInstance env")
    case None
    then show ?thesis
      by (simp add: reconcileDelete_undeploy_error(3) [OF None u] undeployClassifier_Finalizers)
  next
    case (Some err)
    then show ?thesis by (simp add: reconcileDelete_no_manager)
  qed
  show "case GetKeyManagerInstance env of
            None \<Rightarrow>
              out_result (reconcileDelete manager env f r st classifier)
                = \<lparr>Requeue = True, RequeueAfter = 20\<rparr>
              \<and> out_error (reconcileDelete manager env f r st classifier) = None
          | Some err \<Rightarrow>
              out_result (reconcileDelete manager env f r st classifier)
                = \<lparr>Requeue = False, RequeueAfter = 0\<rparr>
              \<and> out_error (reconcileDelete manager env f r st classifier) = Some err
              \<and> out_dispatched (reconcileDelete manager env f r st classifier) = []"
  proof (cases "GetKeyManagerInstance env")
    case None
    then show ?thesis
      by (simp add: reconcileDelete_undeploy_error(1,2) [OF None u])
  next
    case (Some err)
    then show ?thesis by (simp add: reconcileDelete_no_manager_outcome [OF Some])
  qed
next
  assume a: "GetKeyManagerInstance env = None
      \<and> (\<forall>c \<in> ci_Cluster ` set (c_ClusterInfo classifier). clusterExists env c \<or> clusterGone env c)"
  show "\<forall>c \<in> ci_Cluster ` set (c_ClusterInfo classifier).
          clusterExists env c \<and> removalPending env classifier f c \<longrightarrow>
          undeployRequest env classifier f c
            \<in> set (out_dispatched (reconcileDelete manager env f r st classifier))"
    using a undeployClassifier_dispatched [of classifier env _ f]
    by (auto simp: reconcileDelete_dispatched)
qed

theorem finalizer_removed_only_when_settled_witness:
  "ClassifierFinalizer \<in> set (c_Finalizers classifier_deleted)
   \<and> c_Finalizers (out_classifier (reconcileDelete specKeyManager env_result_removed
        feature_classifier reconciler_pull manager_empty classifier_deleted)) = []
   \<and> removalConfirmed env_result_removed classifier_deleted feature_classifier ref_c1
   \<and> GetKeyManagerInstance env_ready = None
   \<and> ci_Cluster ` set (c_ClusterInfo classifier_deleted) = {ref_c1}
   \<and> clusterExists env_ready ref_c1
   \<and> isPaused env_ready ref_c1 classifier_deleted = Inr False
   \<and> \<not> removalConfirmed env_ready classifier_deleted feature_classifier ref_c1
   \<and> removalPending env_ready classifier_deleted feature_classifier ref_c1
   \<and> out_result (reconcileDelete specKeyManager env_ready feature_classifier reconciler_pull
        manager_empty classifier_deleted) = \<lparr>Requeue = True, RequeueAfter = 20\<rparr>
   \<and> c_Finalizers (out_classifier (reconcileDelete specKeyManager env_ready feature_classifier
        reconciler_pull manager_empty classifier_deleted)) = [ClassifierFinalizer]
   \<and> undeployRequest env_ready classifier_deleted feature_classifier ref_c1
        \<in> set (out_dispatched (reconcileDelete specKeyManager env_ready feature_classifier
             reconciler_pull manager_empty classifier_deleted))
   \<and> GetKeyManagerInstance env_no_manager = Some (ApiError ''no key manager'')
   \<and> clusterExists env_no_manager ref_c1
   \<and> isPaused env_no_manager ref_c1 classifier_deleted = Inr False
   \<and> \<not> removalConfirmed env_no_manager classifier_deleted feature_classifier ref_c1
   \<and> out_error (reconcileDelete specKeyManager env_no_manager feature_classifier reconciler_pull
        manager_empty classifier_deleted) = Some (ApiError ''no key manager'')
   \<and> c_Finalizers (out_classifier (reconcileDelete specKeyManager env_no_manager feature_classifier
        reconciler_pull manager_empty classifier_deleted)) = [ClassifierFinalizer]"
  using finalizer_removed_only_when_settled [of classifier_deleted specKeyManager
          env_result_removed feature_classifier reconciler_pull manager_empty]
        finalizer_removed_only_when_settled [of classifier_deleted specKeyManager
          env_ready feature_classifier reconciler_pull manager_empty]
        finalizer_removed_only_when_settled [of classifier_deleted specKeyManager
          env_no_manager feature_classifier reconciler_pull manager_empty]
  by (simp add: env_result_removed_def env_no_manager_def env_ready_def ref_c1_def feature_classifier_def reconciler_pull_def newReconciler_def classifier_one_def
      info_c1_def ObjectReferenceOf_def classifier_deleted_def
      removeClassifier_def isPaused_def HasPaused_def deployerKey_def clusterExists_def
      removalConfirmed_def removalPending_def undeployRequest_def reconcileDelete_def
      removeAllRegistrations_def undeployClassifier_def SetClusterInfo_def
      SetMachingClusterStatuses_def manager_empty_def Let_def deleteRequeueAfter_def)

text \<open>
  C7 as stated fails: a Classifier with the finalizer and one entry, Provisioned in a
  cluster that exists and is paused. Nothing is dispatched, no result says Removed, and
  the pass removes the finalizer.
\<close>

theorem finalizer_removed_only_when_settled_counterexample:
  "ClassifierFinalizer \<in> set (c_Finalizers classifier_deleted)
   \<and> c_ClusterInfo classifier_deleted = [info_c1]
   \<and> ci_Status info_c1 = ClassifierStatusProvisioned
   \<and> clusterExists env_paused (ci_Cluster info_c1)
   \<and> convertResultStatus (GetResult env_paused
        (deployerKey env_paused (ci_Cluster info_c1) classifier_deleted feature_classifier True)) = None
   \<and> c_Finalizers (out_classifier (reconcileDelete specKeyManager env_paused feature_classifier
        reconciler_pull manager_empty classifier_deleted)) = []
   \<and> out_dispatched (reconcileDelete specKeyManager env_paused feature_classifier
        reconciler_pull manager_empty classifier_deleted) = []"
  by (simp add: env_paused_def env_ready_def ref_c1_def feature_classifier_def reconciler_pull_def newReconciler_def classifier_one_def info_c1_def ObjectReferenceOf_def classifier_deleted_def
      removeClassifier_def isPaused_def HasPaused_def deployerKey_def clusterExists_def reconcileDelete_def
      removeAllRegistrations_def undeployClassifier_def SetClusterInfo_def manager_empty_def
      Let_def)

text \<open>
  The pause annotation alone has the same effect: the cluster exists and is not paused,
  the Classifier carries the annotation, and the first pass removes the finalizer without
  dispatching anything.
\<close>

lemma reconcileDelete_pause_annotation_run:
  "clusterExists env_ready ref_c1
   \<and> \<not> clusterPaused env_ready ref_c1
   \<and> HasPaused classifier_deleted_annotated
   \<and> c_Finalizers (out_classifier (reconcileDelete specKeyManager env_ready feature_classifier
        reconciler_pull manager_empty classifier_deleted_annotated)) = []
   \<and> out_dispatched (reconcileDelete specKeyManager env_ready feature_classifier
        reconciler_pull manager_empty classifier_deleted_annotated) = []"
  by (simp add: env_ready_def ref_c1_def feature_classifier_def reconciler_pull_def newReconciler_def classifier_one_def
      info_c1_def ObjectReferenceOf_def classifier_deleted_def classifier_deleted_annotated_def
      removeClassifier_def isPaused_def HasPaused_def deployerKey_def clusterExists_def
      clusterPaused_def reconcileDelete_def removeAllRegistrations_def undeployClassifier_def
      SetClusterInfo_def manager_empty_def Let_def)

subsection \<open>processClassifier and removeClassifier\<close>

text \<open>
  C2, as amended. If an undeploy of the pair is in progress, \<^verbatim>\<open>processClassifier\<close>
  dispatches no deploy, and when the hash is computed and the cluster can proceed (it is not
  paused and is ready) it returns the recoverable error "cleanup ... in progress" and no
  ClusterInfo; when the hash is computed and the cluster is paused or not ready it returns
  neither an entry nor an error. Symmetrically, if a deploy of the pair is in progress,
  \<^verbatim>\<open>removeClassifier\<close> dispatches no undeploy, and when the cluster is not paused it
  returns the recoverable error "deploy ... in progress"; when the cluster is paused it
  returns no error.
\<close>

theorem in_progress_is_refused:
  "(IsInProgress env (deployerKey env cluster classifier f True) \<longrightarrow>
      snd (snd (processClassifier r env classifier cpEndpoint cluster f)) = []
      \<and> ((\<exists>h. getCurrentHash r env classifier cpEndpoint cluster f = Inr h)
           \<and> canProceed env classifier cluster = Inr True \<longrightarrow>
         processClassifier r env classifier cpEndpoint cluster f
           = (None, Some (Errorf (''cleanup of '' @ f_id f
                @ '' in cluster still in progress. Wait before redeploying'')), []))
      \<and> ((\<exists>h. getCurrentHash r env classifier cpEndpoint cluster f = Inr h)
           \<and> canProceed env classifier cluster = Inr False \<longrightarrow>
         processClassifier r env classifier cpEndpoint cluster f = (None, None, [])))
   \<and> (IsInProgress env (deployerKey env cluster classifier f False) \<longrightarrow>
      snd (removeClassifier env classifier cluster f) = []
      \<and> (isPaused env cluster classifier = Inr False \<longrightarrow>
         removeClassifier env classifier cluster f
           = (Some (Errorf (''deploy of '' @ f_id f
                @ '' in cluster still in progress. Wait before redeploying'')), []))
      \<and> (isPaused env cluster classifier = Inr True \<longrightarrow>
         removeClassifier env classifier cluster f = (None, [])))"
  by (auto simp: processClassifier_def removeClassifier_def split: sum.splits)

theorem in_progress_is_refused_witness:
  "IsInProgress env_all_in_progress
      (deployerKey env_all_in_progress ref_c1 classifier_one feature_classifier True)
   \<and> IsInProgress env_all_in_progress
      (deployerKey env_all_in_progress ref_c1 classifier_one feature_classifier False)
   \<and> getCurrentHash reconciler_pull env_all_in_progress classifier_one [] ref_c1 feature_classifier
        = Inr ''h1''
   \<and> canProceed env_all_in_progress classifier_one ref_c1 = Inr True
   \<and> isPaused env_all_in_progress ref_c1 classifier_one = Inr False
   \<and> processClassifier reconciler_pull env_all_in_progress classifier_one [] ref_c1 feature_classifier
        = (None, Some (Errorf ''cleanup of Classifier in cluster still in progress. Wait before redeploying''), [])
   \<and> removeClassifier env_all_in_progress classifier_one ref_c1 feature_classifier
        = (Some (Errorf ''deploy of Classifier in cluster still in progress. Wait before redeploying''), [])"
  using in_progress_is_refused [of env_all_in_progress ref_c1 classifier_one feature_classifier
      reconciler_pull "[]"]
  by (simp add: env_all_in_progress_def env_ready_def ref_c1_def feature_classifier_def reconciler_pull_def newReconciler_def classifier_one_def
      info_c1_def ObjectReferenceOf_def
      getCurrentHash_def canProceed_def isPaused_def HasPaused_def deployerKey_def)

text \<open>
  C2 as stated fails: an undeploy of the pair is in progress and the cluster is paused.
  \<^verbatim>\<open>processClassifier\<close> returns no error.
\<close>

theorem in_progress_is_refused_counterexample:
  "IsInProgress env_paused_cleanup_in_progress
      (deployerKey env_paused_cleanup_in_progress ref_c1 classifier_one feature_classifier True)
   \<and> processClassifier reconciler_pull env_paused_cleanup_in_progress classifier_one [] ref_c1
        feature_classifier = (None, None, [])"
  by (simp add: env_paused_cleanup_in_progress_def env_paused_def env_ready_def ref_c1_def feature_classifier_def reconciler_pull_def newReconciler_def classifier_one_def
      info_c1_def ObjectReferenceOf_def
      processClassifier_def getCurrentHash_def canProceed_def isPaused_def HasPaused_def
      deployerKey_def)

text \<open>
  C3, as amended. For a pair whose stored hash equals the current hash, and for which the
  queue holds a result or the recorded status is already Provisioned,
  \<^verbatim>\<open>processClassifier\<close> dispatches no deploy request. When the cluster can proceed and no
  undeploy is in progress, the result is translated into the status of the returned entry:
  Deployed to Provisioned, Failed to Failed, InProgress to Provisioning (with the error
  "classifier is still being provisioned"), Removed to Removed; and without a result, the
  recorded status being Provisioned, the status stays Provisioned.
\<close>

theorem same_hash_no_redeploy:
  assumes "getCurrentHash r env classifier cpEndpoint cluster f = Inr h"
      and "getClassifierInClusterHashAndStatus classifier cluster = (Some h, currentStatus)"
      and "convertResultStatus (GetResult env (deployerKey env cluster classifier f False)) \<noteq> None
           \<or> currentStatus = Some ClassifierStatusProvisioned"
  shows "snd (snd (processClassifier r env classifier cpEndpoint cluster f)) = []
     \<and> (canProceed env classifier cluster = Inr True
          \<and> \<not> IsInProgress env (deployerKey env cluster classifier f True) \<longrightarrow>
        processClassifier r env classifier cpEndpoint cluster f =
          (let result = GetResult env (deployerKey env cluster classifier f False);
               errorMessage = (case res_Err result of None \<Rightarrow> [] | Some e \<Rightarrow> Error e);
               info = (\<lambda>status message.
                         \<lparr>ci_Cluster = cluster, ci_Hash = Some h, ci_Status = status,
                          ci_FailureMessage = message\<rparr>)
           in (case res_ResultStatus result of
                 Deployed \<Rightarrow> (Some (info ClassifierStatusProvisioned (Some errorMessage)), None, [])
               | Failed \<Rightarrow> (Some (info ClassifierStatusFailed None), None, [])
               | InProgress \<Rightarrow>
                   (Some (info ClassifierStatusProvisioning (Some errorMessage)),
                    Some (Errorf ''classifier is still being provisioned''), [])
               | Removed \<Rightarrow> (Some (info ClassifierStatusRemoved None), None, [])
               | Unavailable \<Rightarrow> (Some (info ClassifierStatusProvisioned None), None, []))))"
  using assms
  by (auto simp: processClassifier_def Let_def split: sum.splits ResultStatus.splits)

theorem same_hash_no_redeploy_witness:
  "getCurrentHash reconciler_pull env_result_deployed classifier_failed [] ref_c1 feature_classifier
     = Inr ''h1''
   \<and> getClassifierInClusterHashAndStatus classifier_failed ref_c1
        = (Some ''h1'', Some ClassifierStatusFailed)
   \<and> convertResultStatus (GetResult env_result_deployed
        (deployerKey env_result_deployed ref_c1 classifier_failed feature_classifier False)) \<noteq> None
   \<and> canProceed env_result_deployed classifier_failed ref_c1 = Inr True
   \<and> \<not> IsInProgress env_result_deployed
        (deployerKey env_result_deployed ref_c1 classifier_failed feature_classifier True)
   \<and> processClassifier reconciler_pull env_result_deployed classifier_failed [] ref_c1 feature_classifier
        = (Some \<lparr>ci_Cluster = ref_c1, ci_Hash = Some ''h1'', ci_Status = ClassifierStatusProvisioned,
                 ci_FailureMessage = Some []\<rparr>, None, [])"
proof -
  have h: "getCurrentHash reconciler_pull env_result_deployed classifier_failed [] ref_c1
             feature_classifier = Inr ''h1''"
    by (simp add: env_result_deployed_def env_ready_def ref_c1_def feature_classifier_def reconciler_pull_def newReconciler_def classifier_one_def
      info_c1_def ObjectReferenceOf_def getCurrentHash_def)
  have s: "getClassifierInClusterHashAndStatus classifier_failed ref_c1
             = (Some ''h1'', Some ClassifierStatusFailed)"
    by (simp add: ref_c1_def feature_classifier_def reconciler_pull_def newReconciler_def classifier_one_def
      info_c1_def ObjectReferenceOf_def classifier_failed_def info_c1_failed_def getClassifierInClusterHashAndStatus_def)
  have a: "convertResultStatus (GetResult env_result_deployed
             (deployerKey env_result_deployed ref_c1 classifier_failed feature_classifier False)) \<noteq> None
           \<or> Some ClassifierStatusFailed = Some ClassifierStatusProvisioned"
    by (simp add: env_result_deployed_def env_ready_def)
  have p: "canProceed env_result_deployed classifier_failed ref_c1 = Inr True"
    by (simp add: env_result_deployed_def env_ready_def ref_c1_def feature_classifier_def reconciler_pull_def newReconciler_def classifier_one_def
      info_c1_def ObjectReferenceOf_def classifier_failed_def info_c1_failed_def canProceed_def
        isPaused_def HasPaused_def)
  have q: "\<not> IsInProgress env_result_deployed
        (deployerKey env_result_deployed ref_c1 classifier_failed feature_classifier True)"
    by (simp add: env_result_deployed_def env_ready_def)
  show ?thesis
    using same_hash_no_redeploy [OF h s a] h s a p q
    by (simp add: env_result_deployed_def env_ready_def)
qed

text \<open>
  C3 as stated fails: the stored hash equals the current hash, the queue holds no result
  and the recorded status is Failed. A deploy request is dispatched.
\<close>

theorem same_hash_no_redeploy_counterexample:
  "getCurrentHash reconciler_pull env_ready classifier_failed [] ref_c1 feature_classifier
     = Inr ''h1''
   \<and> getClassifierInClusterHashAndStatus classifier_failed ref_c1
        = (Some ''h1'', Some ClassifierStatusFailed)
   \<and> snd (snd (processClassifier reconciler_pull env_ready classifier_failed [] ref_c1
        feature_classifier)) = [request_deploy_c1]"
  by (simp add: env_ready_def ref_c1_def feature_classifier_def reconciler_pull_def newReconciler_def classifier_one_def
      info_c1_def ObjectReferenceOf_def classifier_failed_def info_c1_failed_def request_deploy_c1_def
      processClassifier_def getCurrentHash_def canProceed_def isPaused_def HasPaused_def
      deployerKey_def getClassifierInClusterHashAndStatus_def)

text \<open>
  C4, as amended. For a pair that reaches the decision (the hash is computed, the cluster
  can proceed, no undeploy is in progress) and whose stored hash differs from the current
  one (the hash changed, or no deployment was ever recorded), or whose hash is unchanged
  while the queue holds no result and the recorded status is not Provisioned (the previous
  attempt failed and its result has been consumed), \<^verbatim>\<open>processClassifier\<close> dispatches
  exactly one deploy request, for this pair; when the queue accepts it, the returned entry
  has status Provisioning, the current hash and no failure message, and when the queue
  refuses it, the error of the queue is returned without an entry.
\<close>

theorem stale_or_pending_is_dispatched:
  assumes "getCurrentHash r env classifier cpEndpoint cluster f = Inr h"
      and "canProceed env classifier cluster = Inr True"
      and "\<not> IsInProgress env (deployerKey env cluster classifier f True)"
      and "getClassifierInClusterHashAndStatus classifier cluster = (hash, currentStatus)"
      and "hash \<noteq> Some h
           \<or> (convertResultStatus (GetResult env (deployerKey env cluster classifier f False)) = None
               \<and> currentStatus \<noteq> Some ClassifierStatusProvisioned)"
  shows "\<exists>request.
           rq_key request = deployerKey env cluster classifier f False
           \<and> snd (snd (processClassifier r env classifier cpEndpoint cluster f)) = [request]
           \<and> (case Deploy env request of
                 None \<Rightarrow>
                   processClassifier r env classifier cpEndpoint cluster f =
                     (Some \<lparr>ci_Cluster = cluster, ci_Hash = Some h,
                            ci_Status = ClassifierStatusProvisioning, ci_FailureMessage = None\<rparr>,
                      None, [request])
               | Some err \<Rightarrow>
                   processClassifier r env classifier cpEndpoint cluster f
                     = (None, Some err, [request]))"
  using assms
  by (auto simp: processClassifier_def Let_def split: option.splits)

theorem stale_or_pending_is_dispatched_witness:
  "getCurrentHash reconciler_pull env_ready classifier_failed [] ref_c1 feature_classifier = Inr ''h1''
   \<and> canProceed env_ready classifier_failed ref_c1 = Inr True
   \<and> \<not> IsInProgress env_ready (deployerKey env_ready ref_c1 classifier_failed feature_classifier True)
   \<and> getClassifierInClusterHashAndStatus classifier_failed ref_c1
        = (Some ''h1'', Some ClassifierStatusFailed)
   \<and> convertResultStatus (GetResult env_ready
        (deployerKey env_ready ref_c1 classifier_failed feature_classifier False)) = None
   \<and> (\<exists>request.
         rq_key request = deployerKey env_ready ref_c1 classifier_failed feature_classifier False
         \<and> processClassifier reconciler_pull env_ready classifier_failed [] ref_c1 feature_classifier =
             (Some \<lparr>ci_Cluster = ref_c1, ci_Hash = Some ''h1'',
                    ci_Status = ClassifierStatusProvisioning, ci_FailureMessage = None\<rparr>,
              None, [request]))"
proof -
  have h: "getCurrentHash reconciler_pull env_ready classifier_failed [] ref_c1 feature_classifier
             = Inr ''h1''"
    by (simp add: env_ready_def ref_c1_def feature_classifier_def reconciler_pull_def newReconciler_def classifier_one_def
      info_c1_def ObjectReferenceOf_def getCurrentHash_def)
  have p: "canProceed env_ready classifier_failed ref_c1 = Inr True"
    by (simp add: env_ready_def ref_c1_def feature_classifier_def reconciler_pull_def newReconciler_def classifier_one_def
      info_c1_def ObjectReferenceOf_def classifier_failed_def info_c1_failed_def canProceed_def isPaused_def HasPaused_def)
  have q: "\<not> IsInProgress env_ready
             (deployerKey env_ready ref_c1 classifier_failed feature_classifier True)"
    by (simp add: env_ready_def)
  have s: "getClassifierInClusterHashAndStatus classifier_failed ref_c1
             = (Some ''h1'', Some ClassifierStatusFailed)"
    by (simp add: ref_c1_def feature_classifier_def reconciler_pull_def newReconciler_def classifier_one_def
      info_c1_def ObjectReferenceOf_def classifier_failed_def info_c1_failed_def getClassifierInClusterHashAndStatus_def)
  have n: "convertResultStatus (GetResult env_ready
             (deployerKey env_ready ref_c1 classifier_failed feature_classifier False)) = None"
    by (simp add: env_ready_def)
  have d: "Some ''h1'' \<noteq> Some ''h1''
           \<or> (convertResultStatus (GetResult env_ready
                 (deployerKey env_ready ref_c1 classifier_failed feature_classifier False)) = None
               \<and> Some ClassifierStatusFailed \<noteq> Some ClassifierStatusProvisioned)"
    using n by simp
  have all: "Deploy env_ready request = None" for request
    by (simp add: env_ready_def)
  from stale_or_pending_is_dispatched [OF h p q s d] all
  have "\<exists>request.
         rq_key request = deployerKey env_ready ref_c1 classifier_failed feature_classifier False
         \<and> processClassifier reconciler_pull env_ready classifier_failed [] ref_c1 feature_classifier =
             (Some \<lparr>ci_Cluster = ref_c1, ci_Hash = Some ''h1'',
                    ci_Status = ClassifierStatusProvisioning, ci_FailureMessage = None\<rparr>,
              None, [request])"
    by auto
  with h p q s n show ?thesis by blast
qed

text \<open>
  C4 as stated fails: the previous attempt failed (the recorded status is Failed, with the
  current hash, and the queue still holds the Failed result), the cluster can proceed and
  no undeploy is in progress. Nothing is dispatched and the returned entry is Failed.
\<close>

theorem stale_or_pending_is_dispatched_counterexample:
  "getCurrentHash reconciler_pull env_result_failed classifier_failed [] ref_c1 feature_classifier
     = Inr ''h1''
   \<and> canProceed env_result_failed classifier_failed ref_c1 = Inr True
   \<and> \<not> IsInProgress env_result_failed
        (deployerKey env_result_failed ref_c1 classifier_failed feature_classifier True)
   \<and> getClassifierInClusterHashAndStatus classifier_failed ref_c1
        = (Some ''h1'', Some ClassifierStatusFailed)
   \<and> res_ResultStatus (GetResult env_result_failed
        (deployerKey env_result_failed ref_c1 classifier_failed feature_classifier False)) = Failed
   \<and> processClassifier reconciler_pull env_result_failed classifier_failed [] ref_c1 feature_classifier
        = (Some \<lparr>ci_Cluster = ref_c1, ci_Hash = Some ''h1'', ci_Status = ClassifierStatusFailed,
                 ci_FailureMessage = None\<rparr>, None, [])"
  by (simp add: env_result_failed_def env_ready_def ref_c1_def feature_classifier_def reconciler_pull_def newReconciler_def classifier_one_def
      info_c1_def ObjectReferenceOf_def classifier_failed_def info_c1_failed_def
      processClassifier_def getCurrentHash_def canProceed_def isPaused_def HasPaused_def
      deployerKey_def getClassifierInClusterHashAndStatus_def)

subsection \<open>deployClassifier\<close>

lemma processClassifier_Some_proceeds:
  assumes "fst (processClassifier r env classifier cp cluster f) = Some info"
  shows "ci_Cluster info = cluster \<and> canProceed env classifier cluster = Inr True"
  using assms
  by (auto simp: processClassifier_def Let_def split: sum.splits if_splits option.splits prod.splits)

lemma processClassifier_not_proceed:
  assumes "canProceed env classifier cluster = Inr False"
  shows "fst (processClassifier r env classifier cp cluster f) = None"
    and "snd (snd (processClassifier r env classifier cp cluster f)) = []"
    and "getCurrentHash r env classifier cp cluster f = Inr h
         \<Longrightarrow> processClassifier r env classifier cp cluster f = (None, None, [])"
  using assms by (auto simp: processClassifier_def split: sum.splits)

lemma deployClassifier_step_proceeds:
  assumes "\<forall>info \<in> set (fst (snd (snd st))). canProceed env classifier (ci_Cluster info) = Inr True"
  shows "\<forall>info \<in> set (fst (snd (snd (deployClassifier_step r env classifier f c st)))).
           canProceed env classifier (ci_Cluster info) = Inr True"
proof -
  obtain errorSeen allDeployed clusterInfo dispatched
    where st: "st = (errorSeen, allDeployed, clusterInfo, dispatched)"
    by (cases st) auto
  obtain cInfo err requests
    where pc: "processClassifier r env classifier (ControlPlaneEndpoint r) (ci_Cluster c) f
                 = (cInfo, err, requests)"
    by (cases "processClassifier r env classifier (ControlPlaneEndpoint r) (ci_Cluster c) f") auto
  show ?thesis
  proof (cases cInfo)
    case None
    then show ?thesis using assms st pc by (simp add: deployClassifier_step_def)
  next
    case (Some info)
    with pc have "fst (processClassifier r env classifier (ControlPlaneEndpoint r) (ci_Cluster c) f)
                    = Some info"
      by simp
    from processClassifier_Some_proceeds [OF this]
    have "canProceed env classifier (ci_Cluster info) = Inr True" by simp
    then show ?thesis using assms st pc Some by (simp add: deployClassifier_step_def)
  qed
qed

lemma deployClassifier_loop_proceeds:
  assumes "\<forall>info \<in> set (fst (snd (snd st))). canProceed env classifier (ci_Cluster info) = Inr True"
  shows "\<forall>info \<in> set (fst (snd (snd (deployClassifier_loop r env classifier f infos st)))).
           canProceed env classifier (ci_Cluster info) = Inr True"
  using assms
proof (induction infos arbitrary: st)
  case Nil
  then show ?case by simp
next
  case (Cons c infos)
  show ?case
    using Cons.IH [OF deployClassifier_step_proceeds [OF Cons.prems]] by simp
qed

lemma deployClassifier_ClusterInfo:
  "c_ClusterInfo (fst (snd (deployClassifier r env classifier f)))
     = fst (snd (snd (deployClassifier_loop r env classifier f (c_ClusterInfo classifier)
                        (None, True, [], []))))"
  by (simp add: deployClassifier_def SetClusterInfo_def Let_def split: prod.splits option.splits)

lemma canProceed_False_iff:
  "canProceed env classifier cluster = Inr False \<longleftrightarrow>
     isPaused env cluster classifier = Inr True
     \<or> (isPaused env cluster classifier = Inr False
         \<and> IsClusterReadyToBeConfigured env cluster = Inr False)"
  by (auto simp: canProceed_def split: sum.splits)

text \<open>
  C6, as amended. For a pair whose cluster is paused (the cluster itself, or the pause
  annotation on the Classifier) or not yet ready to be configured, the pass dispatches no
  request for the pair and \<^verbatim>\<open>processClassifier\<close> returns no entry (and, when the hash
  is computed, no error); the \<open>Status.ClusterInfo\<close> that \<^verbatim>\<open>deployClassifier\<close> rebuilds
  holds no entry for that cluster: the previously recorded entry is dropped, not kept.
\<close>

theorem paused_pair_is_dropped:
  assumes "isPaused env cluster classifier = Inr True
           \<or> (isPaused env cluster classifier = Inr False
               \<and> IsClusterReadyToBeConfigured env cluster = Inr False)"
  shows "snd (snd (processClassifier r env classifier cpEndpoint cluster f)) = []
     \<and> fst (processClassifier r env classifier cpEndpoint cluster f) = None
     \<and> ((\<exists>h. getCurrentHash r env classifier cpEndpoint cluster f = Inr h) \<longrightarrow>
          processClassifier r env classifier cpEndpoint cluster f = (None, None, []))
     \<and> cluster \<notin> ci_Cluster ` set (c_ClusterInfo (fst (snd (deployClassifier r env classifier f))))"
proof -
  have np: "canProceed env classifier cluster = Inr False"
    using assms by (simp add: canProceed_False_iff)
  have "\<forall>info \<in> set (c_ClusterInfo (fst (snd (deployClassifier r env classifier f)))).
          canProceed env classifier (ci_Cluster info) = Inr True"
    unfolding deployClassifier_ClusterInfo
    by (rule deployClassifier_loop_proceeds) simp
  with np have "cluster \<notin> ci_Cluster ` set (c_ClusterInfo (fst (snd (deployClassifier r env classifier f))))"
    by auto
  with processClassifier_not_proceed [OF np] show ?thesis by auto
qed

theorem paused_pair_is_dropped_witness:
  "isPaused env_paused ref_c1 classifier_one = Inr True
   \<and> processClassifier reconciler_pull env_paused classifier_one [] ref_c1 feature_classifier
        = (None, None, [])
   \<and> ref_c1 \<notin> ci_Cluster ` set (c_ClusterInfo (fst (snd
        (deployClassifier reconciler_pull env_paused classifier_one feature_classifier))))"
proof -
  have p: "isPaused env_paused ref_c1 classifier_one = Inr True"
    by (simp add: env_paused_def env_ready_def isPaused_def)
  have h: "getCurrentHash reconciler_pull env_paused classifier_one [] ref_c1 feature_classifier
             = Inr ''h1''"
    by (simp add: env_paused_def env_ready_def ref_c1_def feature_classifier_def reconciler_pull_def newReconciler_def classifier_one_def
      info_c1_def ObjectReferenceOf_def getCurrentHash_def)
  from p have "isPaused env_paused ref_c1 classifier_one = Inr True
           \<or> (isPaused env_paused ref_c1 classifier_one = Inr False
               \<and> IsClusterReadyToBeConfigured env_paused ref_c1 = Inr False)"
    by simp
  from paused_pair_is_dropped [OF this, of reconciler_pull "[]" feature_classifier] p h
  show ?thesis by simp
qed

text \<open>
  C6 as stated fails: a Classifier whose only entry is Provisioned in a paused cluster.
  After \<^verbatim>\<open>deployClassifier\<close> the entry is gone from \<open>Status.ClusterInfo\<close>.
\<close>

theorem paused_pair_is_dropped_counterexample:
  "isPaused env_paused ref_c1 classifier_one = Inr True
   \<and> ci_Cluster info_c1 = ref_c1
   \<and> c_ClusterInfo classifier_one = [info_c1]
   \<and> deployClassifier reconciler_pull env_paused classifier_one feature_classifier
        = (None, classifier_one\<lparr>c_ClusterInfo := []\<rparr>, [])"
  by (simp add: env_paused_def env_ready_def ref_c1_def feature_classifier_def reconciler_pull_def newReconciler_def classifier_one_def
      info_c1_def ObjectReferenceOf_def
      processClassifier_def getCurrentHash_def canProceed_def isPaused_def HasPaused_def
      deployClassifier_def deployClassifier_step_def SetClusterInfo_def)

subsection \<open>updateMatchingClustersAndRegistrations\<close>

lemma set_without_nth:
  assumes "i < length xs"
  shows "insert (xs ! i) (set (take i xs @ drop (Suc i) xs)) = set xs"
proof -
  have "set xs = set (take i xs @ xs ! i # drop (Suc i) xs)"
    by (rule arg_cong [where f = set, OF id_take_nth_drop [OF assms]])
  also have "\<dots> = insert (xs ! i) (set (take i xs @ drop (Suc i) xs))"
    by simp
  finally show ?thesis by simp
qed

lemma rangeBy_Cons:
  "rangeBy (p # picks) (k # ks) =
     (k # ks) ! (p mod length (k # ks))
       # rangeBy picks (take (p mod length (k # ks)) (k # ks) @ drop (Suc (p mod length (k # ks))) (k # ks))"
  by (simp only: rangeBy.simps Let_def)

lemma rangeBy_set: "set (rangeBy picks ks) = set ks"
proof (induction picks ks rule: rangeBy.induct)
  case (1 picks)
  show ?case by simp
next
  case (2 k ks)
  show ?case by simp
next
  case (3 p picks k ks)
  have i: "p mod length (k # ks) < length (k # ks)" by simp
  have ih: "set (rangeBy picks (take (p mod length (k # ks)) (k # ks)
                  @ drop (Suc (p mod length (k # ks))) (k # ks)))
          = set (take (p mod length (k # ks)) (k # ks) @ drop (Suc (p mod length (k # ks))) (k # ks))"
    by (rule "3.IH" [OF refl])
  show ?case
    unfolding rangeBy_Cons
    by (simp only: list.set ih set_without_nth [OF i])
qed

lemma register_loop_calls:
  "snd (register_loop manager classifier cs st)
     = snd st @ concat (map (registerCalls classifier) cs)"
  by (induction cs arbitrary: st)
     (simp_all add: callRegisterClassifierForLabels_def callRemoveStaleRegistrations_def
        registerCalls_def)

lemma unregister_loop_calls:
  "snd (unregister_loop manager classifier cur cs st)
     = snd st @ map (\<lambda>c. CallRemoveAllRegistrations (c_Name classifier) (or_Namespace c) (or_Name c))
                  (filter (\<lambda>c. c \<notin> set cur) cs)"
  by (induction cs arbitrary: st) (simp_all add: callRemoveAllRegistrations_def)

lemma currentMatchingClusters_loop_set:
  "set (currentMatchingClusters_loop items acc) = set acc \<union> matchingClusters items"
  by (induction items arbitrary: acc) (auto simp: matchingClusters_def)

lemma oldMatchingClusters_loop_set:
  "set (oldMatchingClusters_loop statuses acc) = set acc \<union> mcs_ClusterRef ` set statuses"
  by (induction statuses arbitrary: acc) auto

lemma concat_registerCalls_split:
  assumes "c \<in> set cs"
  shows "\<exists>pre post. concat (map (registerCalls classifier) cs)
           = pre @ registerCalls classifier c @ post"
proof -
  from assms obtain ys zs where "cs = ys @ c # zs" by (meson split_list)
  then have "concat (map (registerCalls classifier) cs)
      = concat (map (registerCalls classifier) ys) @ registerCalls classifier c
        @ concat (map (registerCalls classifier) zs)"
    by simp
  then show ?thesis by blast
qed

lemma matchingClusterStatus_loop_first_slot:
  assumes "GetKeyManagerInstance env = None"
  shows "\<exists>unManaged'. matchingClusterStatus_loop manager env k classifier cs (0, unManaged, statuses)
           = Inr (unManaged',
                  (if cs = [] then statuses
                   else statuses[0 := statusOf manager k classifier (last cs)]))"
proof (induction cs arbitrary: unManaged statuses)
  case Nil
  then show ?case by simp
next
  case (Cons c cs)
  obtain managed un where cl:
    "classifyLabels_loop manager k classifier c (c_ClassifierLabels classifier) ([], []) = (managed, un)"
    by (cases "classifyLabels_loop manager k classifier c (c_ClassifierLabels classifier) ([], [])")
  from Cons.IH [of "unManaged + length un"
      "statuses[0 := \<lparr>mcs_ClusterRef = c, mcs_ManagedLabels = managed, mcs_UnManagedLabels = un\<rparr>]"]
  show ?case
    using assms cl by (auto simp: classifyLabels_def statusOf_def)
qed


lemma handleLabelRegistrations_calls:
  assumes "GetKeyManagerInstance env = None"
  shows "fst (handleLabelRegistrations manager env classifier cur old picksCurrent picksOld st) = None"
    and "snd (snd (handleLabelRegistrations manager env classifier cur old picksCurrent picksOld st))
          = snd st @ concat (map (registerCalls classifier) (rangeBy picksCurrent cur))
            @ map (\<lambda>c. CallRemoveAllRegistrations (c_Name classifier) (or_Namespace c) (or_Name c))
                (filter (\<lambda>c. c \<notin> set cur) (rangeBy picksOld old))"
  using assms
  by (simp_all add: handleLabelRegistrations_def register_loop_calls unregister_loop_calls)

lemma updateMatchingClustersAndRegistrations_run:
  assumes "listClassifierReports env (c_Name classifier) = Inr items"
      and "GetKeyManagerInstance env = None"
  shows "\<exists>hasUnManaged.
     updateMatchingClustersAndRegistrations manager env picksCurrent picksOld picksStatus r st classifier
       = (let cur = currentMatchingClusters_loop items [];
              old = oldMatchingClusters_loop (c_MachingClusterStatuses classifier) [];
              st' = snd (handleLabelRegistrations manager env classifier cur old picksCurrent picksOld st);
              order = rangeBy picksStatus cur;
              zeros = replicate (length cur) MachingClusterStatus_zero
          in (None,
              SetMachingClusterStatuses
                (if order = [] then zeros
                 else zeros[0 := statusOf manager (fst st') classifier (last order)]) classifier,
              updateClassifierSet (c_Name classifier) hasUnManaged r,
              st'))"
proof -
  let ?cur = "currentMatchingClusters_loop items []"
  let ?old = "oldMatchingClusters_loop (c_MachingClusterStatuses classifier) []"
  let ?h = "handleLabelRegistrations manager env classifier ?cur ?old picksCurrent picksOld st"
  obtain st' where h: "?h = (None, st')"
    using handleLabelRegistrations_calls(1) [OF assms(2), of manager classifier ?cur ?old
        picksCurrent picksOld st]
    by (cases ?h) simp
  from matchingClusterStatus_loop_first_slot [OF assms(2), of manager "fst st'" classifier
      "rangeBy picksStatus ?cur" 0 "replicate (length ?cur) MachingClusterStatus_zero"]
  obtain u where u: "matchingClusterStatus_loop manager env (fst st') classifier
        (rangeBy picksStatus ?cur) (0, 0, replicate (length ?cur) MachingClusterStatus_zero)
      = Inr (u, (if rangeBy picksStatus ?cur = [] then replicate (length ?cur) MachingClusterStatus_zero
                 else (replicate (length ?cur) MachingClusterStatus_zero)
                        [0 := statusOf manager (fst st') classifier (last (rangeBy picksStatus ?cur))]))"
    by blast
  have "updateMatchingClustersAndRegistrations manager env picksCurrent picksOld picksStatus r st classifier
      = (None,
         SetMachingClusterStatuses
           (if rangeBy picksStatus ?cur = [] then replicate (length ?cur) MachingClusterStatus_zero
            else (replicate (length ?cur) MachingClusterStatus_zero)
                   [0 := statusOf manager (fst st') classifier (last (rangeBy picksStatus ?cur))])
           classifier,
         updateClassifierSet (c_Name classifier) (u \<noteq> 0) r,
         st')"
    by (simp add: updateMatchingClustersAndRegistrations_def assms(1) h u Let_def)
  moreover have "st' = snd ?h" using h by simp
  ultimately show ?thesis
    by (intro exI [of _ "u \<noteq> 0"]) (simp add: Let_def)
qed

lemma registrations_calls:
  assumes "listClassifierReports env (c_Name classifier) = Inr items"
      and "GetKeyManagerInstance env = None"
  shows "\<exists>order rest.
       snd (snd (snd (snd (updateMatchingClustersAndRegistrations manager env picksCurrent
            picksOld picksStatus r st classifier))))
         = snd st @ concat (map (registerCalls classifier) order) @ rest
       \<and> set order = matchingClusters items
       \<and> (\<forall>c \<in> matchingClusters items.
             \<exists>pre post. concat (map (registerCalls classifier) order) @ rest
                          = pre @ registerCalls classifier c @ post)
       \<and> (\<forall>c \<in> set rest. \<exists>ns n. c = CallRemoveAllRegistrations (c_Name classifier) ns n)
       \<and> (\<forall>c \<in> previousClusters classifier.
             c \<notin> matchingClusters items \<longrightarrow>
             CallRemoveAllRegistrations (c_Name classifier) (or_Namespace c) (or_Name c) \<in> set rest)"
proof -
  let ?cur = "currentMatchingClusters_loop items []"
  let ?old = "oldMatchingClusters_loop (c_MachingClusterStatuses classifier) []"
  let ?order = "rangeBy picksCurrent ?cur"
  let ?rest = "map (\<lambda>c. CallRemoveAllRegistrations (c_Name classifier) (or_Namespace c) (or_Name c))
                (filter (\<lambda>c. c \<notin> set ?cur) (rangeBy picksOld ?old))"
  have cur: "set ?cur = matchingClusters items"
    by (simp add: currentMatchingClusters_loop_set)
  have old: "set ?old = previousClusters classifier"
    by (simp add: oldMatchingClusters_loop_set previousClusters_def)
  from updateMatchingClustersAndRegistrations_run [OF assms, of manager picksCurrent picksOld
      picksStatus r st]
  obtain b where "updateMatchingClustersAndRegistrations manager env picksCurrent picksOld
      picksStatus r st classifier
       = (let cur = currentMatchingClusters_loop items [];
              old = oldMatchingClusters_loop (c_MachingClusterStatuses classifier) [];
              st' = snd (handleLabelRegistrations manager env classifier cur old picksCurrent picksOld st);
              order = rangeBy picksStatus cur;
              zeros = replicate (length cur) MachingClusterStatus_zero
          in (None,
              SetMachingClusterStatuses
                (if order = [] then zeros
                 else zeros[0 := statusOf manager (fst st') classifier (last order)]) classifier,
              updateClassifierSet (c_Name classifier) b r,
              st'))"
    by blast
  then have "snd (snd (snd (snd (updateMatchingClustersAndRegistrations manager env picksCurrent
            picksOld picksStatus r st classifier))))
        = snd (snd (handleLabelRegistrations manager env classifier ?cur ?old picksCurrent picksOld st))"
    by (simp add: Let_def)
  then have log: "snd (snd (snd (snd (updateMatchingClustersAndRegistrations manager env picksCurrent
            picksOld picksStatus r st classifier))))
        = snd st @ concat (map (registerCalls classifier) ?order) @ ?rest"
    by (simp add: handleLabelRegistrations_calls(2) [OF assms(2)])
  have ord: "set ?order = matchingClusters items"
    by (simp add: rangeBy_set cur)
  have reg: "\<exists>pre post. concat (map (registerCalls classifier) ?order) @ ?rest
                          = pre @ registerCalls classifier c @ post"
    if "c \<in> matchingClusters items" for c
  proof -
    from that ord have "c \<in> set ?order" by simp
    from concat_registerCalls_split [OF this, of classifier]
    obtain pre post where "concat (map (registerCalls classifier) ?order)
        = pre @ registerCalls classifier c @ post" by blast
    then have "concat (map (registerCalls classifier) ?order) @ ?rest
        = pre @ registerCalls classifier c @ (post @ ?rest)" by simp
    then show ?thesis by blast
  qed
  have rem: "CallRemoveAllRegistrations (c_Name classifier) (or_Namespace c) (or_Name c) \<in> set ?rest"
    if "c \<in> previousClusters classifier" "c \<notin> matchingClusters items" for c
  proof -
    from that old cur have "c \<in> set (filter (\<lambda>c. c \<notin> set ?cur) (rangeBy picksOld ?old))"
      by (simp add: rangeBy_set)
    then show ?thesis by (simp only: set_map) (rule imageI)
  qed
  have only: "\<forall>c \<in> set ?rest. \<exists>ns n. c = CallRemoveAllRegistrations (c_Name classifier) ns n"
    by auto
  from log ord reg only rem show ?thesis by blast
qed

text \<open>
  C8. In every reconciliation pass, the registration calls the reconciler adds to the log
  are these. When the reports cannot be listed or the key manager cannot be obtained, the
  pass returns that error and makes no call. Otherwise: for each currently matching
  cluster, in the order of the range, \<open>RemoveStaleRegistrations\<close> immediately followed by
  \<open>RegisterClassifierForLabels\<close> for that same cluster, so the first is made before the
  second; and after them only \<open>RemoveAllRegistrations\<close> calls, one of them for every
  cluster of the previous \<open>MachingClusterStatuses\<close> that is no longer matching.
\<close>

theorem registrations_in_order:
  "(case listClassifierReports env (c_Name classifier) of
      Inl err \<Rightarrow>
        updateMatchingClustersAndRegistrations manager env picksCurrent picksOld picksStatus r st
          classifier = (Some err, classifier, r, st)
    | Inr items \<Rightarrow>
        (case GetKeyManagerInstance env of
           Some err \<Rightarrow>
             updateMatchingClustersAndRegistrations manager env picksCurrent picksOld picksStatus r st
               classifier = (Some err, classifier, r, st)
         | None \<Rightarrow>
             (\<exists>order rest.
                snd (snd (snd (snd (updateMatchingClustersAndRegistrations manager env picksCurrent
                     picksOld picksStatus r st classifier))))
                  = snd st @ concat (map (registerCalls classifier) order) @ rest
                \<and> set order = matchingClusters items
                \<and> (\<forall>c \<in> matchingClusters items.
                      \<exists>pre post. concat (map (registerCalls classifier) order) @ rest
                                   = pre @ registerCalls classifier c @ post)
                \<and> (\<forall>c \<in> set rest. \<exists>ns n. c = CallRemoveAllRegistrations (c_Name classifier) ns n)
                \<and> (\<forall>c \<in> previousClusters classifier.
                      c \<notin> matchingClusters items \<longrightarrow>
                      CallRemoveAllRegistrations (c_Name classifier) (or_Namespace c) (or_Name c)
                        \<in> set rest))))"
proof (cases "listClassifierReports env (c_Name classifier)")
  case (Inl err)
  then show ?thesis by (simp add: updateMatchingClustersAndRegistrations_def)
next
  case (Inr items)
  show ?thesis
  proof (cases "GetKeyManagerInstance env")
    case (Some err)
    with Inr show ?thesis
      by (simp add: updateMatchingClustersAndRegistrations_def handleLabelRegistrations_def Let_def)
  next
    case None
    from registrations_calls [OF Inr None, of manager picksCurrent picksOld picksStatus r st]
    show ?thesis using Inr None by simp
  qed
qed

theorem registrations_in_order_witness:
  "listClassifierReports env_two_matches (c_Name classifier_team_c3) = Inr [report_c1, report_c2]
   \<and> GetKeyManagerInstance env_two_matches = None
   \<and> ObjectReferenceOf ''ns'' ''c1'' \<in> matchingClusters [report_c1, report_c2]
   \<and> ObjectReferenceOf ''ns'' ''c3'' \<in> previousClusters classifier_team_c3
   \<and> ObjectReferenceOf ''ns'' ''c3'' \<notin> matchingClusters [report_c1, report_c2]
   \<and> (\<exists>order rest pre post.
         snd (snd (snd (snd (updateMatchingClustersAndRegistrations specKeyManager env_two_matches
              [] [] [] reconciler_pull manager_empty classifier_team_c3))))
           = concat (map (registerCalls classifier_team_c3) order) @ rest
         \<and> concat (map (registerCalls classifier_team_c3) order) @ rest
             = pre @ [CallRemoveStaleRegistrations ''acme'' ''ns'' ''c1'',
                      CallRegisterClassifierForLabels ''acme'' ''ns'' ''c1''] @ post
         \<and> CallRemoveAllRegistrations ''acme'' ''ns'' ''c3'' \<in> set rest)"
proof -
  have l: "listClassifierReports env_two_matches (c_Name classifier_team_c3)
             = Inr [report_c1, report_c2]"
    by (simp add: env_two_matches_def env_ready_def)
  have k: "GetKeyManagerInstance env_two_matches = None"
    by (simp add: env_two_matches_def env_ready_def)
  have m: "ObjectReferenceOf ''ns'' ''c1'' \<in> matchingClusters [report_c1, report_c2]"
    by (simp add: matchingClusters_def report_c1_def report_c2_def)
  have p: "ObjectReferenceOf ''ns'' ''c3'' \<in> previousClusters classifier_team_c3"
    by (simp add: previousClusters_def classifier_team_c3_def classifier_team_def)
  have n: "ObjectReferenceOf ''ns'' ''c3'' \<notin> matchingClusters [report_c1, report_c2]"
    by (auto simp: matchingClusters_def report_c1_def report_c2_def ObjectReferenceOf_def)
  have c: "c_Name classifier_team_c3 = ''acme''"
    by (simp add: classifier_team_c3_def classifier_team_def)
  from registrations_in_order [where env = env_two_matches and classifier = classifier_team_c3
      and manager = specKeyManager and picksCurrent = "[]" and picksOld = "[]"
      and picksStatus = "[]" and r = reconciler_pull and st = manager_empty]
  have "\<exists>order rest.
      snd (snd (snd (snd (updateMatchingClustersAndRegistrations specKeyManager env_two_matches
              [] [] [] reconciler_pull manager_empty classifier_team_c3))))
           = snd manager_empty @ concat (map (registerCalls classifier_team_c3) order) @ rest
      \<and> (\<forall>c \<in> matchingClusters [report_c1, report_c2].
             \<exists>pre post. concat (map (registerCalls classifier_team_c3) order) @ rest
                          = pre @ registerCalls classifier_team_c3 c @ post)
      \<and> (\<forall>c \<in> previousClusters classifier_team_c3.
             c \<notin> matchingClusters [report_c1, report_c2] \<longrightarrow>
             CallRemoveAllRegistrations (c_Name classifier_team_c3) (or_Namespace c) (or_Name c)
               \<in> set rest)"
    using l k by simp blast
  then obtain order rest where
    log: "snd (snd (snd (snd (updateMatchingClustersAndRegistrations specKeyManager env_two_matches
              [] [] [] reconciler_pull manager_empty classifier_team_c3))))
           = snd manager_empty @ concat (map (registerCalls classifier_team_c3) order) @ rest"
    and reg: "\<forall>c \<in> matchingClusters [report_c1, report_c2].
             \<exists>pre post. concat (map (registerCalls classifier_team_c3) order) @ rest
                          = pre @ registerCalls classifier_team_c3 c @ post"
    and rem: "\<forall>c \<in> previousClusters classifier_team_c3.
             c \<notin> matchingClusters [report_c1, report_c2] \<longrightarrow>
             CallRemoveAllRegistrations (c_Name classifier_team_c3) (or_Namespace c) (or_Name c)
               \<in> set rest"
    by blast
  from reg m obtain pre post where
    "concat (map (registerCalls classifier_team_c3) order) @ rest
       = pre @ registerCalls classifier_team_c3 (ObjectReferenceOf ''ns'' ''c1'') @ post"
    by blast
  then have r1: "concat (map (registerCalls classifier_team_c3) order) @ rest
       = pre @ [CallRemoveStaleRegistrations ''acme'' ''ns'' ''c1'',
                CallRegisterClassifierForLabels ''acme'' ''ns'' ''c1''] @ post"
    by (simp add: registerCalls_def c ObjectReferenceOf_def)
  from rem p n have r3: "CallRemoveAllRegistrations ''acme'' ''ns'' ''c3'' \<in> set rest"
    by (auto simp: c ObjectReferenceOf_def)
  from log have log': "snd (snd (snd (snd (updateMatchingClustersAndRegistrations specKeyManager
              env_two_matches [] [] [] reconciler_pull manager_empty classifier_team_c3))))
           = concat (map (registerCalls classifier_team_c3) order) @ rest"
    by (simp add: manager_empty_def)
  from l k m p n log' r1 r3 show ?thesis by blast
qed

text \<open>
  C1 fails on the code. The loop that fills \<open>matchingClusterStatus\<close> never increments its
  index, unlike the loop of \<^verbatim>\<open>handleLabelRegistrations\<close> over the same map: every
  cluster is written to slot 0. With two clusters reporting a match, whatever the orders of
  the ranges, the pass succeeds and \<open>Status.MachingClusterStatuses\<close> holds one entry for
  one of the two clusters and one zero-valued entry.
\<close>

theorem matching_statuses_hold_a_zero_entry:
  "\<forall>picksCurrent picksOld picksStatus. \<exists>entry.
     fst (updateMatchingClustersAndRegistrations specKeyManager env_two_matches
            picksCurrent picksOld picksStatus reconciler_pull manager_empty classifier_team) = None
     \<and> c_MachingClusterStatuses (fst (snd (updateMatchingClustersAndRegistrations specKeyManager
            env_two_matches picksCurrent picksOld picksStatus reconciler_pull manager_empty
            classifier_team)))
         = [entry, MachingClusterStatus_zero]
     \<and> MachingClusterStatus_zero
         = \<lparr>mcs_ClusterRef = ObjectReferenceOf [] [], mcs_ManagedLabels = [], mcs_UnManagedLabels = []\<rparr>
     \<and> matchingClusters [report_c1, report_c2]
         = {ObjectReferenceOf ''ns'' ''c1'', ObjectReferenceOf ''ns'' ''c2''}"
proof (intro allI)
  fix picksCurrent picksOld picksStatus
  let ?U = "updateMatchingClustersAndRegistrations specKeyManager env_two_matches
            picksCurrent picksOld picksStatus reconciler_pull manager_empty classifier_team"
  have l: "listClassifierReports env_two_matches (c_Name classifier_team)
             = Inr [report_c1, report_c2]"
    by (simp add: env_two_matches_def env_ready_def)
  have k: "GetKeyManagerInstance env_two_matches = None"
    by (simp add: env_two_matches_def env_ready_def)
  have cur: "currentMatchingClusters_loop [report_c1, report_c2] []
               = [ObjectReferenceOf ''ns'' ''c2'', ObjectReferenceOf ''ns'' ''c1'']"
    by (simp add: report_c1_def report_c2_def ObjectReferenceOf_def)
  have ne: "rangeBy picksStatus [ObjectReferenceOf ''ns'' ''c2'', ObjectReferenceOf ''ns'' ''c1''] \<noteq> []"
    using rangeBy_set [of picksStatus "[ObjectReferenceOf ''ns'' ''c2'', ObjectReferenceOf ''ns'' ''c1'']"]
    by auto
  from updateMatchingClustersAndRegistrations_run [OF l k, of specKeyManager picksCurrent picksOld
      picksStatus reconciler_pull manager_empty]
  obtain b where "?U
       = (let cur = currentMatchingClusters_loop [report_c1, report_c2] [];
              old = oldMatchingClusters_loop (c_MachingClusterStatuses classifier_team) [];
              st' = snd (handleLabelRegistrations specKeyManager env_two_matches classifier_team
                           cur old picksCurrent picksOld manager_empty);
              order = rangeBy picksStatus cur;
              zeros = replicate (length cur) MachingClusterStatus_zero
          in (None,
              SetMachingClusterStatuses
                (if order = [] then zeros
                 else zeros[0 := statusOf specKeyManager (fst st') classifier_team (last order)])
                classifier_team,
              updateClassifierSet (c_Name classifier_team) b reconciler_pull,
              st'))"
    by blast
  then have "fst ?U = None \<and> (\<exists>entry. c_MachingClusterStatuses (fst (snd ?U))
       = [entry, MachingClusterStatus_zero])"
    unfolding Let_def cur using ne by (simp add: SetMachingClusterStatuses_def numeral_2_eq_2)
  moreover have "MachingClusterStatus_zero
         = \<lparr>mcs_ClusterRef = ObjectReferenceOf [] [], mcs_ManagedLabels = [], mcs_UnManagedLabels = []\<rparr>"
    by (simp add: MachingClusterStatus_zero_def MachingClusterStatusOf_def)
  moreover have "matchingClusters [report_c1, report_c2]
         = {ObjectReferenceOf ''ns'' ''c1'', ObjectReferenceOf ''ns'' ''c2''}"
    by (auto simp: matchingClusters_def report_c1_def report_c2_def)
  ultimately show "\<exists>entry. fst ?U = None
     \<and> c_MachingClusterStatuses (fst (snd ?U)) = [entry, MachingClusterStatus_zero]
     \<and> MachingClusterStatus_zero
         = \<lparr>mcs_ClusterRef = ObjectReferenceOf [] [], mcs_ManagedLabels = [], mcs_UnManagedLabels = []\<rparr>
     \<and> matchingClusters [report_c1, report_c2]
         = {ObjectReferenceOf ''ns'' ''c1'', ObjectReferenceOf ''ns'' ''c2''}"
    by blast
qed

lemma matching_statuses_two_clusters_run:
  "c_MachingClusterStatuses (fst (snd (updateMatchingClustersAndRegistrations specKeyManager
       env_two_matches [] [] [] reconciler_pull manager_empty classifier_team)))
     = [\<lparr>mcs_ClusterRef = ObjectReferenceOf ''ns'' ''c1'', mcs_ManagedLabels = [''team''],
          mcs_UnManagedLabels = []\<rparr>,
        \<lparr>mcs_ClusterRef = ObjectReferenceOf [] [], mcs_ManagedLabels = [],
          mcs_UnManagedLabels = []\<rparr>]"
  by (simp add: updateMatchingClustersAndRegistrations_def env_two_matches_def env_ready_def
      report_c1_def report_c2_def classifier_team_def manager_empty_def specKeyManager_def
      handleLabelRegistrations_def classifyLabels_def callRemoveStaleRegistrations_def
      callRegisterClassifierForLabels_def MachingClusterStatus_zero_def MachingClusterStatusOf_def
      SetMachingClusterStatuses_def ObjectReferenceOf_def Let_def numeral_2_eq_2)

end
